theory Spec2Isabelle
  imports Main "HOL-Library.Word" "HOL-Library.AList"
begin

section \<open>Errors and results\<close>

text \<open>
  The Go handlers return a response together with an \<open>error\<close>. Two families of
  errors occur in the controller: the typed errors of the storage collaborators, which
  the handlers inspect with \<open>errors.As\<close>, and the gRPC status errors that the
  handlers build with \<open>status.Error(code, msg)\<close> and which carry only a code and a
  text. A typed error has exactly one kind; its wrapped payload is not modelled.
\<close>

datatype err =
    ErrCloneInProgress
  | ErrVolumeNotFound
  | ErrPoolNotFound
  | ErrKeyNotFound
  | ErrInvalidVolID
  | ErrSnapNotFound
  | InvalidCommand
  | CacheEntryNotFound
  | OtherError string

datatype code = Aborted | Internal | InvalidArgument | NotFound | FailedPrecondition

datatype message =
    ErrorText err
  | VolumeOperationAlreadyExistsFmt string
  | SnapshotOperationAlreadyExistsFmt string
  | Text string

datatype error = Plain err | Status code message

text \<open>
  A handler ends with a response, with an error, or with a panic (a nil pointer
  dereference).
\<close>

datatype 'a result = Ok 'a | Fail error | Panicked

section \<open>Data model of the controller\<close>

type_synonym int64 = "64 word"
type_synonym volumeID = string

text \<open>A Go \<open>map[string]string\<close>, as an association list with unique keys.\<close>

type_synonym strmap = "(string \<times> string) list"

text \<open>
  The fields of \<open>volumeOptions\<close> that the controller reads or writes. \<open>Topology\<close>
  is a map that may be nil.
\<close>

record volumeOptions =
  RequestName :: string
  Size :: int64
  Topology :: "strmap option"
  ProvisionVolume :: bool
  Monitors :: string
  SubvolumeGroup :: string
  Pool :: string

text \<open>The zero value \<open>volumeOptions{}\<close>.\<close>

definition volumeOptions_zero :: volumeOptions where
  "volumeOptions_zero =
     \<lparr>RequestName = '''', Size = 0, Topology = None, ProvisionVolume = False,
      Monitors = '''', SubvolumeGroup = '''', Pool = ''''\<rparr>"

record volumeIdentifier =
  FsSubvolName :: string
  VolumeID :: string

record snapshotIdentifier =
  FsSnapshotName :: string
  FsSubVolumeName :: string
  SnapshotID :: string

record Timestamp =
  Seconds :: int64
  Nanos :: "32 word"

text \<open>A \<open>time.Time\<close> instant; only passed from \<open>time.Parse\<close> to \<open>ptypes.TimestampProto\<close>.\<close>

type_synonym time = int

record snapshotInfo =
  CreatedAt :: string
  CreationTime :: "Timestamp option"
  si_SnapshotID :: string

definition snapshotInfo_zero :: snapshotInfo where
  "snapshotInfo_zero = \<lparr>CreatedAt = '''', CreationTime = None, si_SnapshotID = ''''\<rparr>"

text \<open>\<open>CloneStatus\<close>: the controller reads \<open>clone.Status.State\<close> only.\<close>

record CloneStatus =
  State :: string

text \<open>
  \<open>Subvolume\<close>, the result of \<open>getSubVolumeInfo\<close>: the controller reads
  \<open>BytesQuota\<close> and converts it with \<open>int64(...)\<close>; the quota is kept as the 64 bits
  that the conversion yields.
\<close>

record Subvolume =
  BytesQuota :: int64

record controllerCacheEntry =
  VolOptions :: volumeOptions
  ce_VolumeID :: volumeID

subsection \<open>Requests and responses\<close>

record CapacityRange =
  RequiredBytes :: int64
  LimitBytes :: int64

text \<open>The nil-safe getter chain \<open>req.GetCapacityRange().GetRequiredBytes()\<close>.\<close>

definition GetRequiredBytes :: "CapacityRange option \<Rightarrow> int64" where
  "GetRequiredBytes c = (case c of None \<Rightarrow> 0 | Some r \<Rightarrow> RequiredBytes r)"

text \<open>
  The \<open>Type\<close> of a \<open>VolumeContentSource\<close>: a snapshot (by its id), a volume (by its
  id), or unset.
\<close>

datatype VolumeContentSource =
    VolumeContentSource_Snapshot string
  | VolumeContentSource_Volume string
  | VolumeContentSource_unset

text \<open>
  \<open>Parameters\<close> is taken to be a non-nil map: the handler writes a key into it, and
  every request that reaches that point carries parameters (the cluster id among them).
\<close>

record CreateVolumeRequest =
  cv_Name :: string
  cv_CapacityRange :: "CapacityRange option"
  cv_Parameters :: strmap
  cv_Secrets :: strmap
  cv_VolumeContentSource :: "VolumeContentSource option"

record Volume =
  VolumeId :: string
  CapacityBytes :: int64
  ContentSource :: "VolumeContentSource option"
  VolumeContext :: strmap
  AccessibleTopology :: "strmap list"

record CreateVolumeResponse =
  cvr_Volume :: Volume

record DeleteVolumeRequest =
  dv_VolumeId :: string
  dv_Secrets :: strmap

datatype DeleteVolumeResponse = DeleteVolumeResponse

record ControllerExpandVolumeRequest =
  ev_VolumeId :: string
  ev_CapacityRange :: "CapacityRange option"
  ev_Secrets :: strmap

record ControllerExpandVolumeResponse =
  ev_CapacityBytes :: int64
  NodeExpansionRequired :: bool

record CreateSnapshotRequest =
  cs_Name :: string
  cs_SourceVolumeId :: string
  cs_Secrets :: strmap

record Snapshot =
  SizeBytes :: int64
  SnapshotId :: string
  SourceVolumeId :: string
  snap_CreationTime :: "Timestamp option"
  ReadyToUse :: bool

record CreateSnapshotResponse =
  csr_Snapshot :: Snapshot

record DeleteSnapshotRequest =
  ds_SnapshotId :: string
  ds_Secrets :: strmap

datatype DeleteSnapshotResponse = DeleteSnapshotResponse

section \<open>Collaborators\<close>

text \<open>
  The storage primitives, the journal and the request validators live outside the
  controller. Each is a parameter. A call is recorded, with its arguments and its
  result, in the list of calls made so far, and the result of a call may depend on that
  history: the same primitive may succeed once and fail the next time. The context and
  the credentials handle are not passed.
\<close>

text \<open>
  A lookup by identifier returns the options and the identifier, or fails. When it
  fails it may still hand back what it found (the handlers read both on
  \<open>ErrVolumeNotFound\<close> and \<open>ErrSnapNotFound\<close>), or nil pointers.
\<close>

datatype 'a lookup = Found 'a | Failed err "'a option"

text \<open>The collaborators that return only an \<open>error\<close>.\<close>

datatype action =
    NewAdminCredentials strmap
  | createVolume volumeOptions volumeID int64
  | cloneSnapshot volumeOptions volumeID volumeID volumeID volumeOptions
  | resizeVolume volumeOptions volumeID int64
  | purgeVolume volumeID volumeOptions
  | createSnapshot volumeOptions volumeID volumeID
  | protectSnapshot volumeOptions volumeID volumeID
  | unprotectSnapshot volumeOptions volumeID volumeID
  | deleteSnapshot volumeOptions volumeID volumeID
  | undoVolReservation volumeOptions volumeIdentifier strmap
  | undoSnapReservation volumeOptions snapshotIdentifier strmap
  | purgeVolumeDeprecated volumeID volumeOptions
  | deleteCephUserDeprecated volumeOptions volumeID
  | MetadataStore_Delete string

datatype event =
    Did action "err option"
  | DeleteCredentials
  | Call_newVolumeOptions string CreateVolumeRequest strmap "err + volumeOptions"
  | Call_checkVolExists volumeOptions CreateVolumeRequest strmap "err + volumeIdentifier option"
  | Call_reserveVol volumeOptions strmap "err + volumeIdentifier"
  | Call_newVolumeOptionsFromVolID string strmap "(volumeOptions \<times> volumeIdentifier) lookup"
  | Call_newSnapshotOptionsFromID string "(volumeOptions \<times> snapshotIdentifier) lookup"
  | Call_checkSnapExists volumeOptions string strmap "err + snapshotInfo option"
  | Call_getcloneInfo volumeOptions volumeID "CloneStatus \<times> err option"
  | Call_getSubVolumeInfo volumeOptions volumeID "err + Subvolume"
  | Call_reserveSnap volumeOptions string strmap "err + snapshotIdentifier"
  | Call_getSnapshotInfo volumeOptions volumeID volumeID "snapshotInfo \<times> err option"
  | Call_MetadataStore_Get string "err + controllerCacheEntry"

text \<open>The request validators of the driver return gRPC status errors and have no effect.\<close>

datatype ControllerServiceCapability_RPC_Type =
    RPC_CREATE_DELETE_VOLUME
  | RPC_CREATE_DELETE_SNAPSHOT
  | RPC_EXPAND_VOLUME

datatype validation =
    validateCreateVolumeRequest CreateVolumeRequest
  | validateDeleteVolumeRequest
  | validateExpandVolumeRequest ControllerExpandVolumeRequest
  | ValidateControllerServiceRequest ControllerServiceCapability_RPC_Type

record env =
  validate :: "validation \<Rightarrow> error option"
  perform :: "event list \<Rightarrow> action \<Rightarrow> err option"
  RoundOffBytes :: "int64 \<Rightarrow> int64"
  GetMonValFromSecret :: "strmap \<Rightarrow> string \<times> err option"
  time_Parse :: "string \<Rightarrow> string \<Rightarrow> err + time"
  TimestampProto :: "time \<Rightarrow> Timestamp option \<times> err option"
  newVolumeOptions :: "event list \<Rightarrow> string \<Rightarrow> CreateVolumeRequest \<Rightarrow> strmap \<Rightarrow> err + volumeOptions"
  checkVolExists ::
    "event list \<Rightarrow> volumeOptions \<Rightarrow> CreateVolumeRequest \<Rightarrow> strmap \<Rightarrow> err + volumeIdentifier option"
  reserveVol :: "event list \<Rightarrow> volumeOptions \<Rightarrow> strmap \<Rightarrow> err + volumeIdentifier"
  newVolumeOptionsFromVolID ::
    "event list \<Rightarrow> string \<Rightarrow> strmap \<Rightarrow> (volumeOptions \<times> volumeIdentifier) lookup"
  newSnapshotOptionsFromID ::
    "event list \<Rightarrow> string \<Rightarrow> (volumeOptions \<times> snapshotIdentifier) lookup"
  checkSnapExists :: "event list \<Rightarrow> volumeOptions \<Rightarrow> string \<Rightarrow> strmap \<Rightarrow> err + snapshotInfo option"
  getcloneInfo :: "event list \<Rightarrow> volumeOptions \<Rightarrow> volumeID \<Rightarrow> CloneStatus \<times> err option"
  getSubVolumeInfo :: "event list \<Rightarrow> volumeOptions \<Rightarrow> volumeID \<Rightarrow> err + Subvolume"
  reserveSnap :: "event list \<Rightarrow> volumeOptions \<Rightarrow> string \<Rightarrow> strmap \<Rightarrow> err + snapshotIdentifier"
  getSnapshotInfo :: "event list \<Rightarrow> volumeOptions \<Rightarrow> volumeID \<Rightarrow> volumeID \<Rightarrow> snapshotInfo \<times> err option"
  MetadataStore_Get :: "event list \<Rightarrow> string \<Rightarrow> err + controllerCacheEntry"

section \<open>State of the controller server\<close>

datatype severity = Errorf | Warningf | Infof

text \<open>
  The \<open>ControllerServer\<close> holds the two lock registries and, optionally, the legacy
  metadata store (\<open>MetadataStore\<close> says whether it is configured). The state also
  keeps the calls made to the collaborators and the lines logged (severity and format
  string).
\<close>

record state =
  VolumeLocks :: "string set"
  SnapshotLocks :: "string set"
  MetadataStore :: bool
  calls :: "event list"
  logs :: "(severity \<times> string) list"

definition klog :: "severity \<Rightarrow> string \<Rightarrow> state \<Rightarrow> state" where
  "klog sev fmt s = s\<lparr>logs := logs s @ [(sev, fmt)]\<rparr>"

definition record_call :: "event \<Rightarrow> state \<Rightarrow> state" where
  "record_call e s = s\<lparr>calls := calls s @ [e]\<rparr>"

text \<open>Calling a collaborator: ask it, given the history, and record the call.\<close>

definition invoke :: "env \<Rightarrow> action \<Rightarrow> state \<Rightarrow> err option \<times> state" where
  "invoke env a s = (let r = perform env (calls s) a in (r, record_call (Did a r) s))"

subsection \<open>Lock registry\<close>

text \<open>
  Modelled from the spec: the lock registry \<open>util.VolumeLocks\<close> is not among the
  sources. \<open>TryAcquire(key) -> bool\<close> is non-blocking and answers false if the key is
  already held; \<open>Release(key)\<close> is an idempotent no-op if the key is not held.
\<close>

definition TryAcquire :: "string \<Rightarrow> string set \<Rightarrow> bool \<times> string set" where
  "TryAcquire key locks = (if key \<in> locks then (False, locks) else (True, insert key locks))"

text \<open>
  Modelled from the spec: \<open>Release(key)\<close> of the lock registry, an idempotent no-op if
  the key is not held.
\<close>

definition Release :: "string \<Rightarrow> string set \<Rightarrow> string set" where
  "Release key locks = locks - {key}"

subsection \<open>Calls that return more than an error\<close>

definition call_newVolumeOptions ::
  "env \<Rightarrow> string \<Rightarrow> CreateVolumeRequest \<Rightarrow> strmap \<Rightarrow> state \<Rightarrow> (err + volumeOptions) \<times> state" where
  "call_newVolumeOptions env requestName req secret s =
     (let r = newVolumeOptions env (calls s) requestName req secret
      in (r, record_call (Call_newVolumeOptions requestName req secret r) s))"

definition call_checkVolExists ::
  "env \<Rightarrow> volumeOptions \<Rightarrow> CreateVolumeRequest \<Rightarrow> strmap \<Rightarrow> state
     \<Rightarrow> (err + volumeIdentifier option) \<times> state" where
  "call_checkVolExists env volOptions req secret s =
     (let r = checkVolExists env (calls s) volOptions req secret
      in (r, record_call (Call_checkVolExists volOptions req secret r) s))"

definition call_reserveVol ::
  "env \<Rightarrow> volumeOptions \<Rightarrow> strmap \<Rightarrow> state \<Rightarrow> (err + volumeIdentifier) \<times> state" where
  "call_reserveVol env volOptions secret s =
     (let r = reserveVol env (calls s) volOptions secret
      in (r, record_call (Call_reserveVol volOptions secret r) s))"

definition call_newVolumeOptionsFromVolID ::
  "env \<Rightarrow> string \<Rightarrow> strmap \<Rightarrow> state \<Rightarrow> (volumeOptions \<times> volumeIdentifier) lookup \<times> state" where
  "call_newVolumeOptionsFromVolID env volID secrets s =
     (let r = newVolumeOptionsFromVolID env (calls s) volID secrets
      in (r, record_call (Call_newVolumeOptionsFromVolID volID secrets r) s))"

definition call_newSnapshotOptionsFromID ::
  "env \<Rightarrow> string \<Rightarrow> state \<Rightarrow> (volumeOptions \<times> snapshotIdentifier) lookup \<times> state" where
  "call_newSnapshotOptionsFromID env snapshotID s =
     (let r = newSnapshotOptionsFromID env (calls s) snapshotID
      in (r, record_call (Call_newSnapshotOptionsFromID snapshotID r) s))"

definition call_checkSnapExists ::
  "env \<Rightarrow> volumeOptions \<Rightarrow> string \<Rightarrow> strmap \<Rightarrow> state \<Rightarrow> (err + snapshotInfo option) \<times> state" where
  "call_checkSnapExists env volOpt subvolName secret s =
     (let r = checkSnapExists env (calls s) volOpt subvolName secret
      in (r, record_call (Call_checkSnapExists volOpt subvolName secret r) s))"

definition call_getcloneInfo ::
  "env \<Rightarrow> volumeOptions \<Rightarrow> volumeID \<Rightarrow> state \<Rightarrow> (CloneStatus \<times> err option) \<times> state" where
  "call_getcloneInfo env volOpt volID s =
     (let r = getcloneInfo env (calls s) volOpt volID
      in (r, record_call (Call_getcloneInfo volOpt volID r) s))"

definition call_getSubVolumeInfo ::
  "env \<Rightarrow> volumeOptions \<Rightarrow> volumeID \<Rightarrow> state \<Rightarrow> (err + Subvolume) \<times> state" where
  "call_getSubVolumeInfo env volOpt volID s =
     (let r = getSubVolumeInfo env (calls s) volOpt volID
      in (r, record_call (Call_getSubVolumeInfo volOpt volID r) s))"

definition call_reserveSnap ::
  "env \<Rightarrow> volumeOptions \<Rightarrow> string \<Rightarrow> strmap \<Rightarrow> state \<Rightarrow> (err + snapshotIdentifier) \<times> state" where
  "call_reserveSnap env volOpt subvolName secret s =
     (let r = reserveSnap env (calls s) volOpt subvolName secret
      in (r, record_call (Call_reserveSnap volOpt subvolName secret r) s))"

definition call_getSnapshotInfo ::
  "env \<Rightarrow> volumeOptions \<Rightarrow> volumeID \<Rightarrow> volumeID \<Rightarrow> state \<Rightarrow> (snapshotInfo \<times> err option) \<times> state" where
  "call_getSnapshotInfo env volOpt snapID volID s =
     (let r = getSnapshotInfo env (calls s) volOpt snapID volID
      in (r, record_call (Call_getSnapshotInfo volOpt snapID volID r) s))"

definition call_MetadataStore_Get ::
  "env \<Rightarrow> string \<Rightarrow> state \<Rightarrow> (err + controllerCacheEntry) \<times> state" where
  "call_MetadataStore_Get env volID s =
     (let r = MetadataStore_Get env (calls s) volID
      in (r, record_call (Call_MetadataStore_Get volID r) s))"

text \<open>A line logged only when the error is set: \<open>if err != nil { klog.Errorf(...) }\<close>.\<close>

definition klog_if :: "err option \<Rightarrow> severity \<Rightarrow> string \<Rightarrow> state \<Rightarrow> state" where
  "klog_if e sev fmt s = (if e \<noteq> None then klog sev fmt s else s)"

section \<open>Clone from a volume (\<open>internal/cephfs/clone.go\<close>)\<close>

text \<open>
  The deferred function of \<open>createCloneFromSubvolume\<close>, run with the values that
  \<open>protectErr\<close> and \<open>cloneErr\<close> hold when the function returns. It assigns the outer
  \<open>err\<close>, which no longer reaches the caller: the function's result is not named.
\<close>

definition createCloneFromSubvolume_deferred ::
  "env \<Rightarrow> volumeID \<Rightarrow> volumeID \<Rightarrow> volumeOptions \<Rightarrow> err option \<Rightarrow> err option \<Rightarrow> state \<Rightarrow> state" where
  "createCloneFromSubvolume_deferred env volID cloneID volOpt protectErr cloneErr s0 =
     (let snapshotID = cloneID;
          s1 = (if protectErr \<noteq> None
                then (let (dErr, s) = invoke env (deleteSnapshot volOpt snapshotID volID) s0
                      in klog_if dErr Errorf ''failed to delete snapshot %s %v'' s)
                else s0)
      in if cloneErr \<noteq> None
         then (let (err, s2) = invoke env (unprotectSnapshot volOpt snapshotID volID) s1;
                   s3 = klog_if err Errorf ''failed to unprotect snapshot %s %v'' s2;
                   (dSnap, s4) = invoke env (deleteSnapshot volOpt snapshotID volID) s3;
                   s5 = klog_if dSnap Errorf ''failed to delete snapshot %s %v'' s4;
                   (dErr, s6) = invoke env (purgeVolume cloneID volOpt) s5
               in klog_if dErr Errorf ''failed to delete volume %s: %v'' s6)
         else s1)"

definition createCloneFromSubvolume ::
  "env \<Rightarrow> volumeID \<Rightarrow> volumeID \<Rightarrow> volumeOptions \<Rightarrow> state \<Rightarrow> err option \<times> state" where
  "createCloneFromSubvolume env volID cloneID volOpt s0 =
     (let snapshotID = cloneID;
          (err, s1) = invoke env (createSnapshot volOpt snapshotID volID) s0
      in if err \<noteq> None
         then (err, klog Errorf ''failed to create snapshot %s %v'' s1)
         else
          (let deferred = createCloneFromSubvolume_deferred env volID cloneID volOpt;
               (protectErr, s2) = invoke env (protectSnapshot volOpt snapshotID volID) s1
           in if protectErr \<noteq> None
              then (protectErr,
                    deferred protectErr None (klog Errorf ''failed to protect snapshot %s %v'' s2))
              else
               (let cloneVolOpt = volumeOptions_zero
                      \<lparr>SubvolumeGroup := SubvolumeGroup volOpt, Pool := Pool volOpt\<rparr>;
                    (protectErr, s3) =
                      invoke env (cloneSnapshot volOpt volID snapshotID cloneID cloneVolOpt) s2
                in if protectErr \<noteq> None
                   then (protectErr,
                         deferred protectErr None
                           (klog Errorf ''failed to clone snapshot %s %s to %s %v'' s3))
                   else
                    (let ((clone, cloneErr), s4) = call_getcloneInfo env volOpt cloneID s3
                     in if err \<noteq> None
                        then (err, deferred protectErr cloneErr s4)
                        else if State clone \<noteq> ''complete''
                        then (Some ErrCloneInProgress, deferred protectErr cloneErr s4)
                        else
                         (let (cloneErr, s5) =
                                invoke env (resizeVolume volOpt cloneID (Size volOpt)) s4
                          in if cloneErr \<noteq> None
                             then (cloneErr,
                                   deferred protectErr cloneErr
                                     (klog Errorf ''failed to expand volume %s: %v'' s5))
                             else
                              (let (cloneErr, s6) =
                                     invoke env (unprotectSnapshot volOpt snapshotID volID) s5
                               in if cloneErr \<noteq> None
                                  then (cloneErr,
                                        deferred protectErr cloneErr
                                          (klog Errorf ''failed to unprotect snapshot %s %v'' s6))
                                  else
                                   (let (cloneErr, s7) =
                                          invoke env (deleteSnapshot volOpt snapshotID volID) s6
                                    in if cloneErr \<noteq> None
                                       then (cloneErr,
                                             deferred protectErr cloneErr
                                               (klog Errorf ''failed to delete snapshot %s %v'' s7))
                                       else (None, deferred protectErr cloneErr s7))))))))"

section \<open>CreateVolume\<close>

text \<open>
  The clone-from-snapshot branch of \<open>createBackingVolume\<close> after \<open>cloneSnapshot\<close>
  succeeded. From here on a deferred function purges the new volume when the branch's
  \<open>err\<close> is set at the return; \<open>ErrCloneInProgress\<close> is returned with \<open>err\<close> nil.
\<close>

definition createBackingVolume_cloned ::
  "env \<Rightarrow> volumeOptions \<Rightarrow> volumeIdentifier \<Rightarrow> state \<Rightarrow> error option \<times> state" where
  "createBackingVolume_cloned env volOptions vID s0 =
     (let deferred = (\<lambda>s. let (dErr, s') = invoke env (purgeVolume (FsSubvolName vID) volOptions) s
                          in klog_if dErr Errorf ''failed to delete volume %s: %v'' s');
          (err, s1) = invoke env (resizeVolume volOptions (FsSubvolName vID) (Size volOptions)) s0
      in case err of
           Some e \<Rightarrow> (Some (Status Internal (ErrorText e)),
                      deferred (klog Errorf ''failed to expand volume %s: %v'' s1))
         | None \<Rightarrow>
            (let ((clone, err), s2) = call_getcloneInfo env volOptions (FsSubvolName vID) s1
             in case err of
                  Some e \<Rightarrow> (Some (Status Internal (ErrorText e)), deferred s2)
                | None \<Rightarrow>
                   if State clone \<noteq> ''complete''
                   then (Some (Plain ErrCloneInProgress), s2)
                   else (None, s2)))"

text \<open>\<open>createBackingVolume\<close> between taking the admin credentials and deleting them.\<close>

definition createBackingVolume_body ::
  "env \<Rightarrow> CreateVolumeRequest \<Rightarrow> volumeOptions \<Rightarrow> volumeIdentifier \<Rightarrow> state
     \<Rightarrow> error option \<times> state" where
  "createBackingVolume_body env req volOptions vID s0 =
     (case cv_VolumeContentSource req of
        Some (VolumeContentSource_Snapshot snapshotID) \<Rightarrow>
          (let (r, s1) = call_newSnapshotOptionsFromID env snapshotID s0
           in case r of
                Failed e _ \<Rightarrow>
                  (if e = ErrSnapNotFound
                   then (Some (Status NotFound (ErrorText e)), s1)
                   else (Some (Status Internal (ErrorText e)), s1))
              | Found (snapOpt, sid) \<Rightarrow>
                  (let (r, s2) =
                         call_checkSnapExists env snapOpt (FsSubVolumeName sid) (cv_Secrets req) s1
                   in case r of
                        Inl e \<Rightarrow>
                          (if e = ErrSnapNotFound
                           then (Some (Status NotFound (ErrorText e)), s2)
                           else (Some (Status Internal (ErrorText e)), s2))
                      | Inr _ \<Rightarrow>
                          (let snapID = FsSnapshotName sid;
                               (err, s3) =
                                 invoke env (cloneSnapshot volOptions (FsSubVolumeName sid) snapID
                                               (FsSubvolName vID) volOptions) s2
                           in case err of
                                Some e \<Rightarrow> (Some (Plain e), s3)
                              | None \<Rightarrow> createBackingVolume_cloned env volOptions vID s3)))
      | Some (VolumeContentSource_Volume volID) \<Rightarrow>
          (let (r, s1) = call_newVolumeOptionsFromVolID env volID (cv_Secrets req) s0
           in case r of
                Failed e _ \<Rightarrow>
                  (if e \<noteq> ErrVolumeNotFound
                   then (Some (Status NotFound (ErrorText e)), s1)
                   else (Some (Status Internal (ErrorText e)), s1))
              | Found (_, pvID) \<Rightarrow>
                  (let (err, s2) =
                         createCloneFromSubvolume env (FsSubvolName pvID) (FsSubvolName vID)
                           volOptions s1
                   in (map_option Plain err, s2)))
      | Some VolumeContentSource_unset \<Rightarrow>
          (Some (Status InvalidArgument (Text ''not a proper volume source'')), s0)
      | None \<Rightarrow>
          (let (err, s1) =
                 invoke env (createVolume volOptions (FsSubvolName vID) (Size volOptions)) s0
           in case err of
                Some e \<Rightarrow> (Some (Status Internal (ErrorText e)),
                           klog Errorf ''failed to create volume %s: %v'' s1)
              | None \<Rightarrow> (None, s1)))"

text \<open>
  \<open>createBackingVolume\<close> creates the backing subvolume and on any error cleans up any
  created entities.
\<close>

definition createBackingVolume ::
  "env \<Rightarrow> CreateVolumeRequest \<Rightarrow> volumeOptions \<Rightarrow> volumeIdentifier \<Rightarrow> strmap \<Rightarrow> state
     \<Rightarrow> error option \<times> state" where
  "createBackingVolume env req volOptions vID secret s0 =
     (let (err, s1) = invoke env (NewAdminCredentials secret) s0
      in case err of
           Some e \<Rightarrow> (Some (Status InvalidArgument (ErrorText e)), s1)
         | None \<Rightarrow>
            (let (r, s2) = createBackingVolume_body env req volOptions vID s1
             in (r, record_call DeleteCredentials s2)))"

text \<open>
  The response of \<open>CreateVolume\<close>, built the same way for a volume found and for a
  volume created. Writing \<open>subvolumeName\<close> into the request's parameters replaces a
  value already there.
\<close>

definition CreateVolume_response ::
  "CreateVolumeRequest \<Rightarrow> volumeOptions \<Rightarrow> volumeIdentifier \<Rightarrow> CreateVolumeResponse" where
  "CreateVolume_response req volOptions vID =
     \<lparr>cvr_Volume =
        \<lparr>VolumeId = VolumeID vID,
         CapacityBytes = Size volOptions,
         ContentSource = cv_VolumeContentSource req,
         VolumeContext = AList.update ''subvolumeName'' (FsSubvolName vID) (cv_Parameters req),
         AccessibleTopology = (case Topology volOptions of None \<Rightarrow> [] | Some t \<Rightarrow> [t])\<rparr>\<rparr>"

text \<open>
  \<open>CreateVolume\<close> once the reservation is made: the deferred function undoes the
  reservation when \<open>err\<close> is set and is not \<open>ErrCloneInProgress\<close>.
\<close>

definition CreateVolume_reserved ::
  "env \<Rightarrow> CreateVolumeRequest \<Rightarrow> volumeOptions \<Rightarrow> volumeIdentifier \<Rightarrow> state
     \<Rightarrow> CreateVolumeResponse result \<times> state" where
  "CreateVolume_reserved env req volOptions vID s0 =
     (let secret = cv_Secrets req;
          deferred = (\<lambda>err s.
            case err of
              None \<Rightarrow> s
            | Some e \<Rightarrow>
                if e \<noteq> Plain ErrCloneInProgress
                then (let (errDefer, s') = invoke env (undoVolReservation volOptions vID secret) s
                      in klog_if errDefer Warningf ''failed undoing reservation of volume: %s (%s)'' s')
                else s);
          (err, s1) = createBackingVolume env req volOptions vID secret s0
      in case err of
           Some e \<Rightarrow>
             if e = Plain ErrCloneInProgress
             then (Fail (Status Aborted (ErrorText ErrCloneInProgress)), deferred err s1)
             else (Fail e, deferred err s1)
         | None \<Rightarrow>
             (Ok (CreateVolume_response req volOptions vID),
              deferred err
                (klog Infof
                   ''cephfs: successfully created backing volume named %s for request name %s''
                   s1)))"

text \<open>\<open>CreateVolume\<close> while it holds the lock of the request name.\<close>

definition CreateVolume_locked ::
  "env \<Rightarrow> CreateVolumeRequest \<Rightarrow> state \<Rightarrow> CreateVolumeResponse result \<times> state" where
  "CreateVolume_locked env req s0 =
     (let secret = cv_Secrets req;
          requestName = cv_Name req;
          (r, s1) = call_newVolumeOptions env requestName req secret s0
      in case r of
           Inl e \<Rightarrow>
             (Fail (Status InvalidArgument (ErrorText e)),
              klog Errorf ''validation and extraction of volume options failed: %v'' s1)
         | Inr volOptions0 \<Rightarrow>
            (let volOptions =
                   (case cv_CapacityRange req of
                      None \<Rightarrow> volOptions0
                    | Some c \<Rightarrow> volOptions0\<lparr>Size := RoundOffBytes env (RequiredBytes c)\<rparr>);
                 (r, s2) = call_checkVolExists env volOptions req secret s1
             in case r of
                  Inl e \<Rightarrow>
                    (if e = ErrCloneInProgress
                     then (Fail (Status Aborted (ErrorText e)), s2)
                     else (Fail (Status Internal (ErrorText e)), s2))
                | Inr (Some vID) \<Rightarrow> (Ok (CreateVolume_response req volOptions vID), s2)
                | Inr None \<Rightarrow>
                   (let (r, s3) = call_reserveVol env volOptions secret s2
                    in case r of
                         Inl e \<Rightarrow> (Fail (Status Internal (ErrorText e)), s3)
                       | Inr vID \<Rightarrow> CreateVolume_reserved env req volOptions vID s3)))"

text \<open>
  \<open>CreateVolume\<close> creates a reservation and the volume in backend, if it is not
  already present.
\<close>

definition CreateVolume ::
  "env \<Rightarrow> CreateVolumeRequest \<Rightarrow> state \<Rightarrow> CreateVolumeResponse result \<times> state" where
  "CreateVolume env req s0 =
     (case validate env (validateCreateVolumeRequest req) of
        Some e \<Rightarrow> (Fail e, klog Errorf ''CreateVolumeRequest validation failed: %v'' s0)
      | None \<Rightarrow>
         (let requestName = cv_Name req;
              (acquired, locks) = TryAcquire requestName (VolumeLocks s0)
          in if \<not> acquired
             then (Fail (Status Aborted (VolumeOperationAlreadyExistsFmt requestName)),
                   klog Errorf ''util.VolumeOperationAlreadyExistsFmt'' s0)
             else
              (let (r, s1) = CreateVolume_locked env req (s0\<lparr>VolumeLocks := locks\<rparr>)
               in (r, s1\<lparr>VolumeLocks := Release requestName (VolumeLocks s1)\<rparr>))))"

section \<open>DeleteVolume\<close>

text \<open>
  \<open>deleteVolumeDeprecated\<close> once the admin credentials are taken: it takes the lock
  of the volume id, purges the volume, deletes the ceph user and the metadata entry.
\<close>

definition deleteVolumeDeprecated_purge ::
  "env \<Rightarrow> volumeID \<Rightarrow> controllerCacheEntry \<Rightarrow> state \<Rightarrow> DeleteVolumeResponse result \<times> state" where
  "deleteVolumeDeprecated_purge env volID ce s0 =
     (let (acquired, locks) = TryAcquire volID (VolumeLocks s0)
      in if \<not> acquired
         then (Fail (Status Aborted (VolumeOperationAlreadyExistsFmt volID)),
               klog Errorf ''util.VolumeOperationAlreadyExistsFmt'' s0)
         else
          (let s1 = s0\<lparr>VolumeLocks := locks\<rparr>;
               (r, s5) =
                 (let (err, s2) = invoke env (purgeVolumeDeprecated volID (VolOptions ce)) s1
                  in case err of
                       Some e \<Rightarrow> (Fail (Status Internal (ErrorText e)),
                                  klog Errorf ''failed to delete volume %s: %v'' s2)
                     | None \<Rightarrow>
                        (let (err, s3) = invoke env (deleteCephUserDeprecated (VolOptions ce) volID) s2
                         in case err of
                              Some e \<Rightarrow> (Fail (Status Internal (ErrorText e)),
                                         klog Errorf ''failed to delete ceph user for volume %s: %v'' s3)
                            | None \<Rightarrow>
                               (let (err, s4) = invoke env (MetadataStore_Delete volID) s3
                                in case err of
                                     Some e \<Rightarrow> (Fail (Status Internal (ErrorText e)), s4)
                                   | None \<Rightarrow>
                                       (Ok DeleteVolumeResponse,
                                        klog Infof ''cephfs: successfully deleted volume %s'' s4))))
           in (r, s5\<lparr>VolumeLocks := Release volID (VolumeLocks s5)\<rparr>)))"

text \<open>
  \<open>deleteVolumeDeprecated\<close> is used to delete volumes created using version 1.0.0 of
  the plugin, that have state information stored in files or kubernetes config maps.
\<close>

definition deleteVolumeDeprecated ::
  "env \<Rightarrow> DeleteVolumeRequest \<Rightarrow> state \<Rightarrow> DeleteVolumeResponse result \<times> state" where
  "deleteVolumeDeprecated env req s0 =
     (let volID = dv_VolumeId req;
          secrets = dv_Secrets req;
          (r, s1) = call_MetadataStore_Get env volID s0
      in case r of
           Inl e \<Rightarrow>
             (if e = CacheEntryNotFound
              then (Ok DeleteVolumeResponse,
                    klog Warningf
                      ''cephfs: metadata for volume %s not found, assuming the volume to be already deleted (%v)''
                      s1)
              else (Fail (Status Internal (ErrorText e)), s1))
         | Inr ce0 \<Rightarrow>
             if \<not> ProvisionVolume (VolOptions ce0)
             then (Ok DeleteVolumeResponse,
                   klog Warningf ''volume %s is provisioned statically, aborting delete'' s1)
             else
              (let (mon, secretsErr) = GetMonValFromSecret env secrets;
                   (ce, s2) =
                     (if secretsErr = None \<and> length mon > 0
                      then (ce0\<lparr>VolOptions := (VolOptions ce0)\<lparr>Monitors := mon\<rparr>\<rparr>,
                            klog Infof ''overriding monitors [%q] with [%q] for volume %s'' s1)
                      else (ce0, s1));
                   (err, s3) = invoke env (NewAdminCredentials secrets) s2
               in case err of
                    Some e \<Rightarrow> (Fail (Status InvalidArgument (ErrorText e)),
                               klog Errorf ''failed to retrieve admin credentials: %v'' s3)
                  | None \<Rightarrow>
                     (let (r, s4) = deleteVolumeDeprecated_purge env volID ce s3
                      in (r, record_call DeleteCredentials s4))))"

text \<open>The last step of \<open>DeleteVolume\<close>: undo the reservation and answer.\<close>

definition DeleteVolume_unreserve ::
  "env \<Rightarrow> volumeOptions \<Rightarrow> volumeIdentifier \<Rightarrow> strmap \<Rightarrow> state
     \<Rightarrow> DeleteVolumeResponse result \<times> state" where
  "DeleteVolume_unreserve env volOptions vID secrets s0 =
     (let (err, s1) = invoke env (undoVolReservation volOptions vID secrets) s0
      in case err of
           Some e \<Rightarrow> (Fail (Status Internal (ErrorText e)), s1)
         | None \<Rightarrow>
             (Ok DeleteVolumeResponse, klog Infof ''cephfs: successfully deleted volume %s'' s1))"

text \<open>
  \<open>DeleteVolume\<close> after the lookup succeeded and the lock of the request name is
  taken: with admin credentials, purge the subvolume (an \<open>ErrVolumeNotFound\<close> from the
  purge is tolerated) and undo the reservation.
\<close>

definition DeleteVolume_purge ::
  "env \<Rightarrow> volumeOptions \<Rightarrow> volumeIdentifier \<Rightarrow> strmap \<Rightarrow> state
     \<Rightarrow> DeleteVolumeResponse result \<times> state" where
  "DeleteVolume_purge env volOptions vID secrets s0 =
     (let (err, s1) = invoke env (NewAdminCredentials secrets) s0
      in case err of
           Some e \<Rightarrow> (Fail (Status InvalidArgument (ErrorText e)),
                      klog Errorf ''failed to retrieve admin credentials: %v'' s1)
         | None \<Rightarrow>
            (let (r, s4) =
                   (let (err, s2) = invoke env (purgeVolume (FsSubvolName vID) volOptions) s1
                    in case err of
                         Some e \<Rightarrow>
                           (let s3 = klog Errorf ''failed to delete volume %s: %v'' s2
                            in if e \<noteq> ErrVolumeNotFound
                               then (Fail (Status Internal (ErrorText e)), s3)
                               else DeleteVolume_unreserve env volOptions vID secrets s3)
                       | None \<Rightarrow> DeleteVolume_unreserve env volOptions vID secrets s2)
             in (r, record_call DeleteCredentials s4)))"

text \<open>
  \<open>DeleteVolume\<close> while it holds the lock of the volume id. On a successful lookup it
  takes the lock of the request name and then defers
  \<open>cs.VolumeLocks.Release(string(volID))\<close>.
\<close>

definition DeleteVolume_locked ::
  "env \<Rightarrow> DeleteVolumeRequest \<Rightarrow> state \<Rightarrow> DeleteVolumeResponse result \<times> state" where
  "DeleteVolume_locked env req s0 =
     (let volID = dv_VolumeId req;
          secrets = dv_Secrets req;
          (r, s1) = call_newVolumeOptionsFromVolID env volID secrets s0
      in case r of
           Failed err found \<Rightarrow>
             if err = ErrPoolNotFound
             then (Ok DeleteVolumeResponse,
                   klog Warningf ''failed to get backend volume for %s: %v'' s1)
             else if err = ErrKeyNotFound
             then (Ok DeleteVolumeResponse, s1)
             else if err = ErrInvalidVolID \<and> MetadataStore s1
             then deleteVolumeDeprecated env req s1
             else if err \<noteq> ErrVolumeNotFound
             then (Fail (Status Internal (ErrorText err)), s1)
             else
              (case found of
                 None \<Rightarrow> (Panicked, s1)
               | Some (volOptions, vID) \<Rightarrow>
                  (let (acquired, locks) = TryAcquire (RequestName volOptions) (VolumeLocks s1)
                   in if \<not> acquired
                      then (Fail (Status Aborted
                                    (VolumeOperationAlreadyExistsFmt (RequestName volOptions))), s1)
                      else
                       (let s2 = s1\<lparr>VolumeLocks := locks\<rparr>;
                            (err, s3) = invoke env (undoVolReservation volOptions vID secrets) s2;
                            r = (case err of
                                   Some e \<Rightarrow> Fail (Status Internal (ErrorText e))
                                 | None \<Rightarrow> Ok DeleteVolumeResponse)
                        in (r, s3\<lparr>VolumeLocks :=
                                     Release (RequestName volOptions) (VolumeLocks s3)\<rparr>))))
         | Found (volOptions, vID) \<Rightarrow>
            (let (acquired, locks) = TryAcquire (RequestName volOptions) (VolumeLocks s1)
             in if \<not> acquired
                then (Fail (Status Aborted
                              (VolumeOperationAlreadyExistsFmt (RequestName volOptions))), s1)
                else
                 (let s2 = s1\<lparr>VolumeLocks := locks\<rparr>;
                      (r, s3) = DeleteVolume_purge env volOptions vID secrets s2
                  in (r, s3\<lparr>VolumeLocks := Release volID (VolumeLocks s3)\<rparr>))))"

text \<open>\<open>DeleteVolume\<close> deletes the volume in backend and its reservation.\<close>

definition DeleteVolume ::
  "env \<Rightarrow> DeleteVolumeRequest \<Rightarrow> state \<Rightarrow> DeleteVolumeResponse result \<times> state" where
  "DeleteVolume env req s0 =
     (case validate env validateDeleteVolumeRequest of
        Some e \<Rightarrow> (Fail e, klog Errorf ''DeleteVolumeRequest validation failed: %v'' s0)
      | None \<Rightarrow>
         (let volID = dv_VolumeId req;
              (acquired, locks) = TryAcquire volID (VolumeLocks s0)
          in if \<not> acquired
             then (Fail (Status Aborted (VolumeOperationAlreadyExistsFmt volID)),
                   klog Errorf ''util.VolumeOperationAlreadyExistsFmt'' s0)
             else
              (let (r, s1) = DeleteVolume_locked env req (s0\<lparr>VolumeLocks := locks\<rparr>)
               in (r, s1\<lparr>VolumeLocks := Release volID (VolumeLocks s1)\<rparr>))))"

section \<open>ControllerExpandVolume\<close>

text \<open>\<open>ControllerExpandVolume\<close> while it holds the lock and the admin credentials.\<close>

definition ControllerExpandVolume_resize ::
  "env \<Rightarrow> ControllerExpandVolumeRequest \<Rightarrow> state
     \<Rightarrow> ControllerExpandVolumeResponse result \<times> state" where
  "ControllerExpandVolume_resize env req s0 =
     (let volID = ev_VolumeId req;
          secret = ev_Secrets req;
          (r, s1) = call_newVolumeOptionsFromVolID env volID secret s0
      in case r of
           Failed e _ \<Rightarrow>
             (Fail (Status InvalidArgument (ErrorText e)),
              klog Errorf ''validation and extraction of volume options failed: %v'' s1)
         | Found (volOptions, volIdentifier) \<Rightarrow>
            (let RoundOffSize = RoundOffBytes env (GetRequiredBytes (ev_CapacityRange req));
                 (err, s2) =
                   invoke env (resizeVolume volOptions (FsSubvolName volIdentifier) RoundOffSize) s1
             in case err of
                  Some e \<Rightarrow> (Fail (Status Internal (ErrorText e)),
                             klog Errorf ''failed to expand volume %s: %v'' s2)
                | None \<Rightarrow>
                    (Ok \<lparr>ev_CapacityBytes = RoundOffSize, NodeExpansionRequired = False\<rparr>, s2)))"

text \<open>
  \<open>ControllerExpandVolume\<close> expands CephFS Volumes on demand based on resizer
  request.
\<close>

definition ControllerExpandVolume ::
  "env \<Rightarrow> ControllerExpandVolumeRequest \<Rightarrow> state
     \<Rightarrow> ControllerExpandVolumeResponse result \<times> state" where
  "ControllerExpandVolume env req s0 =
     (case validate env (validateExpandVolumeRequest req) of
        Some e \<Rightarrow> (Fail e, klog Errorf ''ControllerExpandVolumeRequest validation failed: %v'' s0)
      | None \<Rightarrow>
         (let volID = ev_VolumeId req;
              secret = ev_Secrets req;
              (acquired, locks) = TryAcquire volID (VolumeLocks s0)
          in if \<not> acquired
             then (Fail (Status Aborted (VolumeOperationAlreadyExistsFmt volID)),
                   klog Errorf ''util.VolumeOperationAlreadyExistsFmt'' s0)
             else
              (let s1 = s0\<lparr>VolumeLocks := locks\<rparr>;
                   (r, s4) =
                     (let (err, s2) = invoke env (NewAdminCredentials secret) s1
                      in case err of
                           Some e \<Rightarrow> (Fail (Status InvalidArgument (ErrorText e)), s2)
                         | None \<Rightarrow>
                            (let (r, s3) = ControllerExpandVolume_resize env req s2
                             in (r, record_call DeleteCredentials s3)))
               in (r, s4\<lparr>VolumeLocks := Release volID (VolumeLocks s4)\<rparr>))))"

section \<open>CreateSnapshot and DeleteSnapshot\<close>

text \<open>
  \<open>doSnapshot\<close> after \<open>createSnapshot\<close> succeeded; the deferred function deletes the
  snapshot again when \<open>err\<close> is set at the return.
\<close>

definition doSnapshot_created ::
  "env \<Rightarrow> volumeOptions \<Rightarrow> volumeID \<Rightarrow> volumeID \<Rightarrow> state
     \<Rightarrow> (snapshotInfo \<times> err option) \<times> state" where
  "doSnapshot_created env volOpt snapID volID s0 =
     (let deferred = (\<lambda>s. let (dErr, s') = invoke env (deleteSnapshot volOpt snapID volID) s
                          in klog_if dErr Errorf ''failed to delete snapshot %s %v'' s');
          ((snap, err), s1) = call_getSnapshotInfo env volOpt snapID volID s0
      in case err of
           Some e \<Rightarrow>
             ((snap, Some e), deferred (klog Errorf ''failed to get snapshot info %s %v'' s1))
         | None \<Rightarrow>
            (let layout = ''2006-01-02 15:04:05.000000''
             in case time_Parse env layout (CreatedAt snap) of
                  Inl e \<Rightarrow>
                    ((snap, Some e),
                     deferred (klog Errorf ''failed to parse time for snapshot %s %v'' s1))
                | Inr tm \<Rightarrow>
                   (let (ct, err) = TimestampProto env tm;
                        snap = snap\<lparr>CreationTime := ct\<rparr>
                    in case err of
                         Some e \<Rightarrow>
                           ((snap, Some e),
                            deferred (klog Errorf ''failed to convert time for snapshot %s %v'' s1))
                       | None \<Rightarrow>
                          (let (err, s2) = invoke env (protectSnapshot volOpt snapID volID) s1
                           in case err of
                                Some e \<Rightarrow>
                                  ((snap, Some e),
                                   deferred (klog Errorf ''failed to protect snapshot %s %v'' s2))
                              | None \<Rightarrow> ((snap, None), s2)))))"

definition doSnapshot ::
  "env \<Rightarrow> volumeOptions \<Rightarrow> string \<Rightarrow> string \<Rightarrow> strmap \<Rightarrow> state
     \<Rightarrow> (snapshotInfo \<times> err option) \<times> state" where
  "doSnapshot env volOpt subvolumeName snapshotName secret s0 =
     (let volID = subvolumeName;
          snapID = snapshotName;
          snap = snapshotInfo_zero;
          (err, s1) = invoke env (NewAdminCredentials secret) s0
      in case err of
           Some e \<Rightarrow> ((snap, Some e), s1)
         | None \<Rightarrow>
            (let (r, s3) =
                   (let (err, s2) = invoke env (createSnapshot volOpt snapID volID) s1
                    in case err of
                         Some e \<Rightarrow>
                           ((snap, Some e), klog Errorf ''failed to create snapshot %s %v'' s2)
                       | None \<Rightarrow> doSnapshot_created env volOpt snapID volID s2)
             in (r, record_call DeleteCredentials s3)))"

definition validateSnapshotReq :: "env \<Rightarrow> CreateSnapshotRequest \<Rightarrow> state \<Rightarrow> error option \<times> state" where
  "validateSnapshotReq env req s0 =
     (case validate env (ValidateControllerServiceRequest RPC_CREATE_DELETE_SNAPSHOT) of
        Some e \<Rightarrow> (Some e, klog Errorf ''invalid create snapshot req: %v'' s0)
      | None \<Rightarrow>
          if cs_Name req = ''''
          then (Some (Status InvalidArgument (Text ''snapshot Name cannot be empty'')), s0)
          else if cs_SourceVolumeId req = ''''
          then (Some (Status InvalidArgument (Text ''source Volume ID cannot be empty'')), s0)
          else (None, s0))"

text \<open>
  \<open>CreateSnapshot\<close> once the snapshot is reserved: the deferred function undoes the
  reservation when \<open>err\<close> is set at the return.
\<close>

definition CreateSnapshot_reserved ::
  "env \<Rightarrow> CreateSnapshotRequest \<Rightarrow> volumeOptions \<Rightarrow> volumeIdentifier \<Rightarrow> Subvolume
     \<Rightarrow> snapshotIdentifier \<Rightarrow> state \<Rightarrow> CreateSnapshotResponse result \<times> state" where
  "CreateSnapshot_reserved env req parentVolOptions vid info sID s0 =
     (let ((snap, err), s1) =
            doSnapshot env parentVolOptions (FsSubvolName vid) (FsSnapshotName sID) (cs_Secrets req) s0
      in case err of
           Some e \<Rightarrow>
             (let (errDefer, s2) =
                    invoke env (undoSnapReservation parentVolOptions sID (cs_Secrets req)) s1
              in (Fail (Status Internal (ErrorText e)),
                  klog_if errDefer Warningf ''failed undoing reservation of snapshot: %s (%s)'' s2))
         | None \<Rightarrow>
             (Ok \<lparr>csr_Snapshot =
                    \<lparr>SizeBytes = BytesQuota info,
                     SnapshotId = SnapshotID sID,
                     SourceVolumeId = cs_SourceVolumeId req,
                     snap_CreationTime = CreationTime snap,
                     ReadyToUse = True\<rparr>\<rparr>, s1))"

text \<open>
  \<open>CreateSnapshot\<close> for a snapshot that does not exist yet: with admin credentials,
  read the size of the parent, reserve the snapshot and create it.
\<close>

definition CreateSnapshot_fresh ::
  "env \<Rightarrow> CreateSnapshotRequest \<Rightarrow> volumeOptions \<Rightarrow> volumeIdentifier \<Rightarrow> state
     \<Rightarrow> CreateSnapshotResponse result \<times> state" where
  "CreateSnapshot_fresh env req parentVolOptions vid s0 =
     (let (err, s1) = invoke env (NewAdminCredentials (cs_Secrets req)) s0
      in case err of
           Some e \<Rightarrow> (Fail (Status Internal (ErrorText e)), s1)
         | None \<Rightarrow>
            (let (r, s4) =
                   (let (r, s2) = call_getSubVolumeInfo env parentVolOptions (FsSubvolName vid) s1
                    in case r of
                         Inl e \<Rightarrow>
                           (if e = InvalidCommand
                            then (Fail (Status FailedPrecondition (ErrorText e)), s2)
                            else (Fail (Status Internal (ErrorText e)), s2))
                       | Inr info \<Rightarrow>
                          (let (r, s3) =
                                 call_reserveSnap env parentVolOptions (FsSubvolName vid)
                                   (cs_Secrets req) s2
                           in case r of
                                Inl e \<Rightarrow> (Fail (Status Internal (ErrorText e)), s3)
                              | Inr sID \<Rightarrow>
                                  CreateSnapshot_reserved env req parentVolOptions vid info sID s3))
             in (r, record_call DeleteCredentials s4)))"

text \<open>\<open>CreateSnapshot\<close> while it holds the lock of the request name.\<close>

definition CreateSnapshot_locked ::
  "env \<Rightarrow> CreateSnapshotRequest \<Rightarrow> state \<Rightarrow> CreateSnapshotResponse result \<times> state" where
  "CreateSnapshot_locked env req s0 =
     (let sourceVolID = cs_SourceVolumeId req;
          (r, s1) = call_newVolumeOptionsFromVolID env sourceVolID (cs_Secrets req) s0
      in case r of
           Failed e _ \<Rightarrow>
             if e = ErrPoolNotFound
             then (Fail (Status NotFound (ErrorText e)),
                   klog Warningf ''failed to get backend volume for %s: %v'' s1)
             else if e = ErrVolumeNotFound
             then (Fail (Status NotFound (ErrorText e)), s1)
             else (Fail (Status Internal (ErrorText e)), s1)
         | Found (found, vid) \<Rightarrow>
            (let parentVolOptions = found\<lparr>RequestName := cs_Name req\<rparr>;
                 (r, s2) =
                   call_checkSnapExists env parentVolOptions (FsSubvolName vid) (cs_Secrets req) s1
             in case r of
                  Inl e \<Rightarrow> (Fail (Status Internal (ErrorText e)), s2)
                | Inr (Some snapInfo) \<Rightarrow>
                    (Ok \<lparr>csr_Snapshot =
                           \<lparr>SizeBytes = Size parentVolOptions,
                            SnapshotId = si_SnapshotID snapInfo,
                            SourceVolumeId = cs_SourceVolumeId req,
                            snap_CreationTime = CreationTime snapInfo,
                            ReadyToUse = True\<rparr>\<rparr>, s2)
                | Inr None \<Rightarrow> CreateSnapshot_fresh env req parentVolOptions vid s2))"

text \<open>\<open>CreateSnapshot\<close> creates the snapshot in backend and stores metadata in store.\<close>

definition CreateSnapshot ::
  "env \<Rightarrow> CreateSnapshotRequest \<Rightarrow> state \<Rightarrow> CreateSnapshotResponse result \<times> state" where
  "CreateSnapshot env req s0 =
     (let (verr, s1) = validateSnapshotReq env req s0
      in case verr of
           Some e \<Rightarrow> (Fail e, s1)
         | None \<Rightarrow>
            (let requestName = cs_Name req;
                 (acquired, locks) = TryAcquire requestName (SnapshotLocks s1)
             in if \<not> acquired
                then (Fail (Status Aborted (SnapshotOperationAlreadyExistsFmt requestName)),
                      klog Errorf ''util.SnapshotOperationAlreadyExistsFmt'' s1)
                else
                 (let (r, s2) = CreateSnapshot_locked env req (s1\<lparr>SnapshotLocks := locks\<rparr>)
                  in (r, s2\<lparr>SnapshotLocks := Release requestName (SnapshotLocks s2)\<rparr>))))"

text \<open>
  \<open>DeleteSnapshot\<close> after the lookup succeeded, holding the lock of the request name:
  unprotect, delete, undo the reservation.
\<close>

definition DeleteSnapshot_found ::
  "env \<Rightarrow> DeleteSnapshotRequest \<Rightarrow> volumeOptions \<Rightarrow> snapshotIdentifier \<Rightarrow> state
     \<Rightarrow> DeleteSnapshotResponse result \<times> state" where
  "DeleteSnapshot_found env req volOpt sid s0 =
     (let (err, s1) =
            invoke env (unprotectSnapshot volOpt (FsSnapshotName sid) (FsSubVolumeName sid)) s0
      in case err of
           Some e \<Rightarrow> (Fail (Status Internal (ErrorText e)), s1)
         | None \<Rightarrow>
            (let (err, s2) =
                   invoke env (deleteSnapshot volOpt (FsSnapshotName sid) (FsSubVolumeName sid)) s1
             in case err of
                  Some e \<Rightarrow> (Fail (Status Internal (ErrorText e)), s2)
                | None \<Rightarrow>
                   (let (err, s3) = invoke env (undoSnapReservation volOpt sid (ds_Secrets req)) s2
                    in case err of
                         Some e \<Rightarrow>
                           (Fail (Status Internal (ErrorText e)),
                            klog Errorf
                              ''failed to remove reservation for snapname (%s) with backing snap (%s) (%s)''
                              s3)
                       | None \<Rightarrow> (Ok DeleteSnapshotResponse, s3))))"

text \<open>\<open>DeleteSnapshot\<close> while it holds the lock of the snapshot id.\<close>

definition DeleteSnapshot_locked ::
  "env \<Rightarrow> DeleteSnapshotRequest \<Rightarrow> state \<Rightarrow> DeleteSnapshotResponse result \<times> state" where
  "DeleteSnapshot_locked env req s0 =
     (let snapshotID = ds_SnapshotId req;
          (r, s1) = call_newSnapshotOptionsFromID env snapshotID s0
      in case r of
           Failed err found \<Rightarrow>
             if err = ErrPoolNotFound
             then (Ok DeleteSnapshotResponse,
                   klog Warningf ''failed to get backend snapshot for %s: %v'' s1)
             else if err = ErrKeyNotFound
             then (Ok DeleteSnapshotResponse, s1)
             else if err = ErrSnapNotFound
             then
              (case found of
                 None \<Rightarrow> (Panicked, s1)
               | Some (volOpt, sid) \<Rightarrow>
                  (let (err, s2) = invoke env (undoSnapReservation volOpt sid (ds_Secrets req)) s1
                   in case err of
                        Some e \<Rightarrow>
                          (Fail (Status Internal (ErrorText e)),
                           klog Errorf
                             ''failed to remove reservation for snapname (%s) with backing snap (%s) (%s)''
                             s2)
                      | None \<Rightarrow> (Ok DeleteSnapshotResponse, s2)))
             else (Fail (Status Internal (ErrorText err)), s1)
         | Found (volOpt, sid) \<Rightarrow>
            (let (acquired, locks) = TryAcquire (RequestName volOpt) (SnapshotLocks s1)
             in if \<not> acquired
                then (Fail (Status Aborted (VolumeOperationAlreadyExistsFmt (RequestName volOpt))),
                      klog Errorf ''util.SnapshotOperationAlreadyExistsFmt'' s1)
                else
                 (let (r, s2) = DeleteSnapshot_found env req volOpt sid (s1\<lparr>SnapshotLocks := locks\<rparr>)
                  in (r, s2\<lparr>SnapshotLocks := Release (RequestName volOpt) (SnapshotLocks s2)\<rparr>))))"

text \<open>
  \<open>DeleteSnapshot\<close> deletes the snapshot in backend and removes the snapshot metadata
  from store.
\<close>

definition DeleteSnapshot ::
  "env \<Rightarrow> DeleteSnapshotRequest \<Rightarrow> state \<Rightarrow> DeleteSnapshotResponse result \<times> state" where
  "DeleteSnapshot env req s0 =
     (case validate env (ValidateControllerServiceRequest RPC_CREATE_DELETE_SNAPSHOT) of
        Some e \<Rightarrow> (Fail e, klog Errorf ''invalid delete snapshot req: %v'' s0)
      | None \<Rightarrow>
         (let (err, s1) = invoke env (NewAdminCredentials (ds_Secrets req)) s0
          in case err of
               Some e \<Rightarrow> (Fail (Status InvalidArgument (ErrorText e)), s1)
             | None \<Rightarrow>
                (let (r, s3) =
                       (let snapshotID = ds_SnapshotId req
                        in if snapshotID = ''''
                           then (Fail (Status InvalidArgument (Text ''snapshot ID cannot be empty'')), s1)
                           else
                            (let (acquired, locks) = TryAcquire snapshotID (SnapshotLocks s1)
                             in if \<not> acquired
                                then (Fail (Status Aborted
                                              (SnapshotOperationAlreadyExistsFmt snapshotID)),
                                      klog Errorf ''util.SnapshotOperationAlreadyExistsFmt'' s1)
                                else
                                 (let (r, s2) =
                                        DeleteSnapshot_locked env req (s1\<lparr>SnapshotLocks := locks\<rparr>)
                                  in (r, s2\<lparr>SnapshotLocks :=
                                               Release snapshotID (SnapshotLocks s2)\<rparr>))))
                 in (r, record_call DeleteCredentials s3))))"

section \<open>Identifier codec\<close>

text \<open>
  Modelled from the spec: the identifier codec (\<open>encode\<close>, \<open>decode\<close> and the identifier
  they work on) is not among the sources; the sources hold only the description of the
  handle layout. A UUID is 36 bytes long.
\<close>

typedef uuid = "{s :: string. length s = 36}"
  by (rule exI [of _ "replicate 36 (CHR ''0'')"]) simp

text \<open>
  Modelled from the spec: the identifier
  \<open>{version: uint16, clusterID: string(\<le> 36 bytes), poolID: int64, objectUUID: UUID}\<close>.
  The bound on the cluster id is an invariant of valid identifiers, not of the type.
\<close>

record Identifier =
  version :: "16 word"
  clusterID :: string
  poolID :: "64 word"
  objectUUID :: uuid

text \<open>Modelled from the spec: the error kind with which \<open>decode\<close> fails.\<close>

datatype decode_error = InvalidVolumeID

text \<open>
  Modelled from the spec: a digit of a fixed-width field in base 16, in lower case as in
  the sample handle.
\<close>

definition hexDigit :: "nat \<Rightarrow> char" where
  "hexDigit n = ''0123456789abcdef'' ! n"

text \<open>
  Modelled from the spec: the value of a hexadecimal digit of either case; any other
  character is not parseable in base 16.
\<close>

definition hexValue :: "char \<Rightarrow> nat option" where
  "hexValue c =
     (let k = (of_char c :: nat)
      in if 48 \<le> k \<and> k \<le> 57 then Some (k - 48)
         else if 97 \<le> k \<and> k \<le> 102 then Some (k - 87)
         else if 65 \<le> k \<and> k \<le> 70 then Some (k - 55)
         else None)"

text \<open>
  Modelled from the spec: a fixed-width hexadecimal field, \<open>toHex w n\<close> being the last
  \<open>w\<close> hexadecimal digits of \<open>n\<close>, most significant first.
\<close>

fun toHex :: "nat \<Rightarrow> nat \<Rightarrow> string" where
  "toHex 0 n = []"
| "toHex (Suc w) n = toHex w (n div 16) @ [hexDigit (n mod 16)]"

text \<open>
  Modelled from the spec: parsing a field in base 16, digit by digit from the left; it
  fails on the first character that is not a hexadecimal digit.
\<close>

fun fromHex_from :: "nat \<Rightarrow> string \<Rightarrow> nat option" where
  "fromHex_from acc [] = Some acc"
| "fromHex_from acc (c # cs) =
     (case hexValue c of None \<Rightarrow> None | Some d \<Rightarrow> fromHex_from (16 * acc + d) cs)"

text \<open>Modelled from the spec: parsing a whole field in base 16.\<close>

definition fromHex :: "string \<Rightarrow> nat option" where
  "fromHex s = fromHex_from 0 s"

text \<open>
  Modelled from the spec: \<open>encode\<close> writes the handle layout
  \<open><version:4 hex><-><len(clusterID):4 hex><-><clusterID, up to 36 bytes><-><poolID:16 hex><-><objectUUID:36 bytes>\<close>.
\<close>

definition encode :: "Identifier \<Rightarrow> string" where
  "encode i =
     toHex 4 (unat (version i)) @ ''-'' @
     toHex 4 (length (clusterID i)) @ ''-'' @
     clusterID i @ ''-'' @
     toHex 16 (unat (poolID i)) @ ''-'' @
     Rep_uuid (objectUUID i)"

text \<open>
  Modelled from the spec: \<open>decode\<close> fails with \<open>InvalidVolumeID\<close> when the separator
  count is wrong, any fixed-width field is not parseable in its expected base, the
  cluster id exceeds the maximum length, or the version is unsupported. The cluster id
  may itself contain the separator, so the separators are counted where the layout puts
  them: after the version, after the length, after the cluster id (whose length the
  length field gives) and after the pool id, in a handle of exactly 64 bytes plus the
  cluster id. Which versions are supported is a parameter.
\<close>

definition decode :: "16 word set \<Rightarrow> string \<Rightarrow> decode_error + Identifier" where
  "decode supported s =
     (if length s < 10 then Inl InvalidVolumeID
      else case fromHex (take 4 s) of
        None \<Rightarrow> Inl InvalidVolumeID
      | Some v \<Rightarrow>
         if s ! 4 \<noteq> CHR ''-'' then Inl InvalidVolumeID
         else case fromHex (take 4 (drop 5 s)) of
           None \<Rightarrow> Inl InvalidVolumeID
         | Some l \<Rightarrow>
            if s ! 9 \<noteq> CHR ''-'' then Inl InvalidVolumeID
            else if 36 < l then Inl InvalidVolumeID
            else if length s \<noteq> 64 + l then Inl InvalidVolumeID
            else if s ! (10 + l) \<noteq> CHR ''-'' then Inl InvalidVolumeID
            else case fromHex (take 16 (drop (11 + l) s)) of
              None \<Rightarrow> Inl InvalidVolumeID
            | Some p \<Rightarrow>
               if s ! (27 + l) \<noteq> CHR ''-'' then Inl InvalidVolumeID
               else if word_of_nat v \<notin> supported then Inl InvalidVolumeID
               else Inr \<lparr>version = word_of_nat v,
                         clusterID = take l (drop 10 s),
                         poolID = word_of_nat p,
                         objectUUID = Abs_uuid (drop (28 + l) s)\<rparr>)"


text \<open>
  A malformed handle with an extra separator: \<open>insert_separator p s\<close> is \<open>s\<close> with one
  more \<open>-\<close> put in front of its byte \<open>p\<close> (at the end when \<open>s\<close> is shorter). Folding it
  over a list of positions puts in one separator after the other.
\<close>

definition insert_separator :: "nat \<Rightarrow> string \<Rightarrow> string" where
  "insert_separator p s = take p s @ ''-'' @ drop p s"
section \<open>ValidateVolumeCapabilities\<close>

record MountVolume =
  FsType :: string
  MountFlags :: "string list"

datatype AccessType = VolumeCapability_Block | VolumeCapability_Mount MountVolume

record VolumeCapability =
  AccessType :: "AccessType option"
  AccessMode :: nat

record ValidateVolumeCapabilitiesRequest =
  vvc_VolumeId :: string
  VolumeCapabilities :: "VolumeCapability list"

text \<open>
  The response: \<open>Confirmed\<close> is a pointer to a message holding the confirmed
  capabilities (nil when nothing is confirmed), \<open>Message\<close> a text.
\<close>

record ValidateVolumeCapabilitiesResponse =
  Confirmed :: "VolumeCapability list option"
  Message :: string

text \<open>\<open>GetBlock\<close> is non-nil exactly for a capability whose access type is block.\<close>

definition GetBlock :: "VolumeCapability \<Rightarrow> unit option" where
  "GetBlock c = (case AccessType c of Some VolumeCapability_Block \<Rightarrow> Some () | _ \<Rightarrow> None)"

text \<open>The \<open>for ... range\<close> loop of the handler: does it return from inside the loop?\<close>

fun rangeFindsBlock :: "VolumeCapability list \<Rightarrow> bool" where
  "rangeFindsBlock [] = False"
| "rangeFindsBlock (c # cs) = (if GetBlock c \<noteq> None then True else rangeFindsBlock cs)"

definition ValidateVolumeCapabilities ::
  "ValidateVolumeCapabilitiesRequest \<Rightarrow> ValidateVolumeCapabilitiesResponse result" where
  "ValidateVolumeCapabilities req =
     (if rangeFindsBlock (VolumeCapabilities req)
      then Ok \<lparr>Confirmed = None, Message = ''''\<rparr>
      else Ok \<lparr>Confirmed = Some (VolumeCapabilities req), Message = ''''\<rparr>)"

section \<open>Observing a run\<close>

text \<open>The calls that a handler made: those added to the history between two states.\<close>

definition performed :: "state \<Rightarrow> state \<Rightarrow> event list" where
  "performed s s' = drop (length (calls s)) (calls s')"


text \<open>A call that removes an entry from the journal.\<close>

fun is_unreserve :: "event \<Rightarrow> bool" where
  "is_unreserve (Did (undoVolReservation _ _ _) _) = True"
| "is_unreserve (Did (undoSnapReservation _ _ _) _) = True"
| "is_unreserve _ = False"


text \<open>
  A call that changes a backing object, the journal or the legacy metadata: every
  collaborator that returns only an error, except taking the credentials, and the two
  reservations. The lookups and the other queries only read.
\<close>

fun is_mutation :: "event \<Rightarrow> bool" where
  "is_mutation (Did (NewAdminCredentials _) _) = False"
| "is_mutation (Did _ _) = True"
| "is_mutation (Call_reserveVol _ _ _) = True"
| "is_mutation (Call_reserveSnap _ _ _ _) = True"
| "is_mutation _ = False"

text \<open>The calls that \<open>createBackingVolume\<close> can make.\<close>

fun backing_action :: "action \<Rightarrow> bool" where
  "backing_action (NewAdminCredentials _) = True"
| "backing_action (createVolume _ _ _) = True"
| "backing_action (cloneSnapshot _ _ _ _ _) = True"
| "backing_action (resizeVolume _ _ _) = True"
| "backing_action (purgeVolume _ _) = True"
| "backing_action (createSnapshot _ _ _) = True"
| "backing_action (protectSnapshot _ _ _) = True"
| "backing_action (unprotectSnapshot _ _ _) = True"
| "backing_action (deleteSnapshot _ _ _) = True"
| "backing_action (undoVolReservation _ _ _) = False"
| "backing_action (undoSnapReservation _ _ _) = False"
| "backing_action (purgeVolumeDeprecated _ _) = False"
| "backing_action (deleteCephUserDeprecated _ _) = False"
| "backing_action (MetadataStore_Delete _) = False"

fun backing_call :: "event \<Rightarrow> bool" where
  "backing_call (Did a _) = backing_action a"
| "backing_call DeleteCredentials = True"
| "backing_call (Call_newVolumeOptionsFromVolID _ _ _) = True"
| "backing_call (Call_newSnapshotOptionsFromID _ _) = True"
| "backing_call (Call_checkSnapExists _ _ _ _) = True"
| "backing_call (Call_getcloneInfo _ _ _) = True"
| "backing_call (Call_newVolumeOptions _ _ _ _) = False"
| "backing_call (Call_checkVolExists _ _ _ _) = False"
| "backing_call (Call_reserveVol _ _ _) = False"
| "backing_call (Call_getSubVolumeInfo _ _ _) = False"
| "backing_call (Call_reserveSnap _ _ _ _) = False"
| "backing_call (Call_getSnapshotInfo _ _ _ _) = False"
| "backing_call (Call_MetadataStore_Get _ _) = False"

text \<open>
  A step from \<open>s\<close> to \<open>s'\<close> that only made calls, all of them satisfying \<open>Q\<close>, and
  left the lock registries and the configuration as they were.
\<close>

definition only_calls :: "(event \<Rightarrow> bool) \<Rightarrow> state \<Rightarrow> state \<Rightarrow> bool" where
  "only_calls Q s s' \<longleftrightarrow>
     (\<exists>xs. calls s' = calls s @ xs \<and> list_all Q xs)
     \<and> VolumeLocks s' = VolumeLocks s
     \<and> SnapshotLocks s' = SnapshotLocks s
     \<and> MetadataStore s' = MetadataStore s"

section \<open>A sample environment\<close>

text \<open>
  Concrete collaborators on which the handlers can be run: a cluster with one volume
  and one snapshot where every call succeeds, no volume or snapshot exists yet for a new
  request name, and sizes are rounded to themselves.
\<close>

definition sample_volOptions :: volumeOptions where
  "sample_volOptions =
     \<lparr>RequestName = ''pvc-1'', Size = 1073741824, Topology = None, ProvisionVolume = True,
      Monitors = ''mon'', SubvolumeGroup = ''csi'', Pool = ''cephfs_data''\<rparr>"

definition sample_volID :: string where
  "sample_volID = ''0001-0009-rook-ceph-0000000000000002-b0285c97-a0ce-11eb-8c66-0242ac110002''"

definition sample_vID :: volumeIdentifier where
  "sample_vID =
     \<lparr>FsSubvolName = ''csi-vol-b0285c97-a0ce-11eb-8c66-0242ac110002'', VolumeID = sample_volID\<rparr>"

definition sample_snapID :: string where
  "sample_snapID = ''0001-0009-rook-ceph-0000000000000002-c1396da8-a0ce-11eb-8c66-0242ac110002''"

definition sample_sID :: snapshotIdentifier where
  "sample_sID =
     \<lparr>FsSnapshotName = ''csi-snap-c1396da8-a0ce-11eb-8c66-0242ac110002'',
      FsSubVolumeName = ''csi-vol-b0285c97-a0ce-11eb-8c66-0242ac110002'',
      SnapshotID = sample_snapID\<rparr>"

definition sample_env :: env where
  "sample_env =
     \<lparr>validate = (\<lambda>_. None),
      perform = (\<lambda>_ _. None),
      RoundOffBytes = (\<lambda>b. b),
      GetMonValFromSecret = (\<lambda>_. ('''', None)),
      time_Parse = (\<lambda>_ _. Inr 0),
      TimestampProto = (\<lambda>_. (Some \<lparr>Seconds = 0, Nanos = 0\<rparr>, None)),
      newVolumeOptions = (\<lambda>_ requestName _ _. Inr (sample_volOptions\<lparr>RequestName := requestName\<rparr>)),
      checkVolExists = (\<lambda>_ _ _ _. Inr None),
      reserveVol = (\<lambda>_ _ _. Inr sample_vID),
      newVolumeOptionsFromVolID = (\<lambda>_ _ _. Found (sample_volOptions, sample_vID)),
      newSnapshotOptionsFromID = (\<lambda>_ _. Found (sample_volOptions\<lparr>RequestName := ''snap-1''\<rparr>, sample_sID)),
      checkSnapExists = (\<lambda>_ _ _ _. Inr None),
      getcloneInfo = (\<lambda>_ _ _. (\<lparr>State = ''complete''\<rparr>, None)),
      getSubVolumeInfo = (\<lambda>_ _ _. Inr \<lparr>BytesQuota = 2147483648\<rparr>),
      reserveSnap = (\<lambda>_ _ _ _. Inr sample_sID),
      getSnapshotInfo = (\<lambda>_ _ _ _.
        (\<lparr>CreatedAt = ''2021-04-19 08:00:00.000000'', CreationTime = None,
          si_SnapshotID = ''''\<rparr>, None)),
      MetadataStore_Get = (\<lambda>_ _. Inl CacheEntryNotFound)\<rparr>"

text \<open>A controller that holds no lock, has no legacy metadata store and has made no call.\<close>

definition idle :: state where
  "idle = \<lparr>VolumeLocks = {}, SnapshotLocks = {}, MetadataStore = False, calls = [], logs = []\<rparr>"

definition sample_CreateVolumeRequest :: CreateVolumeRequest where
  "sample_CreateVolumeRequest =
     \<lparr>cv_Name = ''pvc-1'',
      cv_CapacityRange = Some \<lparr>RequiredBytes = 1073741824, LimitBytes = 0\<rparr>,
      cv_Parameters = [(''clusterID'', ''rook-ceph'')],
      cv_Secrets = [],
      cv_VolumeContentSource = None\<rparr>"


text \<open>A clone from a snapshot whose copy has not completed yet.\<close>

definition pending_env :: env where
  "pending_env = sample_env\<lparr>getcloneInfo := (\<lambda>_ _ _. (\<lparr>State = ''pending''\<rparr>, None))\<rparr>"

definition clone_CreateVolumeRequest :: CreateVolumeRequest where
  "clone_CreateVolumeRequest =
     sample_CreateVolumeRequest
       \<lparr>cv_VolumeContentSource := Some (VolumeContentSource_Snapshot sample_snapID)\<rparr>"

text \<open>The cluster refuses to create new subvolumes.\<close>

definition full_env :: env where
  "full_env =
     sample_env\<lparr>perform := (\<lambda>_ a. case a of
        createVolume _ _ _ \<Rightarrow> Some (OtherError ''no space left'')
      | _ \<Rightarrow> None)\<rparr>"

text \<open>The driver rejects every request at validation.\<close>

definition rejecting_env :: env where
  "rejecting_env =
     sample_env\<lparr>validate := (\<lambda>_. Some (Status InvalidArgument (Text ''volume Capabilities cannot be empty'')))\<rparr>"

text \<open>Another operation holds the lock of \<open>pvc-1\<close>.\<close>

definition busy :: state where
  "busy = idle\<lparr>VolumeLocks := {''pvc-1''}\<rparr>"

text \<open>Sizes below 1 GiB are rounded up to a MiB, larger ones to a GiB.\<close>

definition rounding_env :: env where
  "rounding_env =
     sample_env\<lparr>RoundOffBytes := (\<lambda>b.
        if unat b < 1073741824
        then of_nat (((unat b + 1048575) div 1048576) * 1048576)
        else of_nat (((unat b + 1073741823) div 1073741824) * 1073741824))\<rparr>"

definition sample_ExpandRequest :: ControllerExpandVolumeRequest where
  "sample_ExpandRequest =
     \<lparr>ev_VolumeId = sample_volID,
      ev_CapacityRange = Some \<lparr>RequiredBytes = 1073741825, LimitBytes = 0\<rparr>,
      ev_Secrets = []\<rparr>"




definition sample_DeleteVolumeRequest :: DeleteVolumeRequest where
  "sample_DeleteVolumeRequest = \<lparr>dv_VolumeId = sample_volID, dv_Secrets = []\<rparr>"

definition sample_DeleteSnapshotRequest :: DeleteSnapshotRequest where
  "sample_DeleteSnapshotRequest = \<lparr>ds_SnapshotId = sample_snapID, ds_Secrets = []\<rparr>"

text \<open>Cloning a snapshot fails; every other call succeeds.\<close>

definition clone_fails_env :: env where
  "clone_fails_env =
     sample_env\<lparr>perform := (\<lambda>_ a. case a of
        cloneSnapshot _ _ _ _ _ \<Rightarrow> Some (OtherError ''clone failed'')
      | _ \<Rightarrow> None)\<rparr>"

text \<open>
  A clone from another volume, and a cluster where the status of a clone cannot be
  read: \<open>getcloneInfo\<close> returns an error, with the zero \<open>CloneStatus\<close>.
\<close>

definition parent_volID :: string where
  "parent_volID = ''0001-0009-rook-ceph-0000000000000002-a1174b86-a0ce-11eb-8c66-0242ac110002''"

definition parent_vID :: volumeIdentifier where
  "parent_vID =
     \<lparr>FsSubvolName = ''csi-vol-a1174b86-a0ce-11eb-8c66-0242ac110002'', VolumeID = parent_volID\<rparr>"

definition volume_clone_CreateVolumeRequest :: CreateVolumeRequest where
  "volume_clone_CreateVolumeRequest =
     sample_CreateVolumeRequest
       \<lparr>cv_VolumeContentSource := Some (VolumeContentSource_Volume parent_volID)\<rparr>"

definition clone_info_fails_env :: env where
  "clone_info_fails_env =
     sample_env
       \<lparr>newVolumeOptionsFromVolID := (\<lambda>_ _ _. Found (sample_volOptions, parent_vID)),
        getcloneInfo := (\<lambda>_ _ _. (\<lparr>State = ''''\<rparr>, Some (OtherError ''clone status unavailable'')))\<rparr>"

text \<open>Lookups by identifier that fail, each in its own way.\<close>

definition pool_gone_env :: env where
  "pool_gone_env =
     sample_env\<lparr>newVolumeOptionsFromVolID := (\<lambda>_ _ _. Failed ErrPoolNotFound None),
                newSnapshotOptionsFromID := (\<lambda>_ _. Failed ErrPoolNotFound None)\<rparr>"

definition key_gone_env :: env where
  "key_gone_env =
     sample_env\<lparr>newVolumeOptionsFromVolID := (\<lambda>_ _ _. Failed ErrKeyNotFound None),
                newSnapshotOptionsFromID := (\<lambda>_ _. Failed ErrKeyNotFound None)\<rparr>"

definition object_gone_env :: env where
  "object_gone_env =
     sample_env\<lparr>newVolumeOptionsFromVolID :=
                  (\<lambda>_ _ _. Failed ErrVolumeNotFound (Some (sample_volOptions, sample_vID))),
                newSnapshotOptionsFromID :=
                  (\<lambda>_ _. Failed ErrSnapNotFound
                     (Some (sample_volOptions\<lparr>RequestName := ''snap-1''\<rparr>, sample_sID)))\<rparr>"

definition unreachable_env :: env where
  "unreachable_env =
     sample_env\<lparr>newVolumeOptionsFromVolID := (\<lambda>_ _ _. Failed (OtherError ''timed out'') None),
                newSnapshotOptionsFromID := (\<lambda>_ _. Failed (OtherError ''timed out'') None)\<rparr>"

text \<open>The backing object is gone and the journal cannot be written.\<close>

definition journal_fails_env :: env where
  "journal_fails_env =
     object_gone_env\<lparr>perform := (\<lambda>_ a. case a of
        undoVolReservation _ _ _ \<Rightarrow> Some (OtherError ''omap unavailable'')
      | undoSnapReservation _ _ _ \<Rightarrow> Some (OtherError ''omap unavailable'')
      | _ \<Rightarrow> None)\<rparr>"

text \<open>
  A volume id of version 1.0.0 of the plugin, unknown to the journal and to the legacy
  metadata store, on a controller that has a legacy metadata store.
\<close>

definition legacy_env :: env where
  "legacy_env = sample_env\<lparr>newVolumeOptionsFromVolID := (\<lambda>_ _ _. Failed ErrInvalidVolID None)\<rparr>"

definition legacy_idle :: state where
  "legacy_idle = idle\<lparr>MetadataStore := True\<rparr>"

definition legacy_DeleteVolumeRequest :: DeleteVolumeRequest where
  "legacy_DeleteVolumeRequest = \<lparr>dv_VolumeId = ''csi-cephfs-pvc-4711'', dv_Secrets = []\<rparr>"

text \<open>The identifier of the sample handle of the design document.\<close>

definition sample_Identifier :: Identifier where
  "sample_Identifier =
     \<lparr>version = 1, clusterID = ''rook-ceph'', poolID = 2,
      objectUUID = Abs_uuid ''b0285c97-a0ce-11eb-8c66-0242ac110002''\<rparr>"

definition oversized_Identifier :: Identifier where
  "oversized_Identifier = sample_Identifier\<lparr>clusterID := replicate 37 (CHR ''x'')\<rparr>"

section \<open>Properties\<close>

text \<open>Logging and recording a call leave everything else of the state alone.\<close>

lemma klog_proj [simp]:
  "calls (klog sev fmt s) = calls s"
  "VolumeLocks (klog sev fmt s) = VolumeLocks s"
  "SnapshotLocks (klog sev fmt s) = SnapshotLocks s"
  "MetadataStore (klog sev fmt s) = MetadataStore s"
  by (simp_all add: klog_def)

lemma klog_if_proj [simp]:
  "calls (klog_if e sev fmt s) = calls s"
  "VolumeLocks (klog_if e sev fmt s) = VolumeLocks s"
  "SnapshotLocks (klog_if e sev fmt s) = SnapshotLocks s"
  "MetadataStore (klog_if e sev fmt s) = MetadataStore s"
  by (simp_all add: klog_if_def)

lemma record_call_proj [simp]:
  "calls (record_call e s) = calls s @ [e]"
  "VolumeLocks (record_call e s) = VolumeLocks s"
  "SnapshotLocks (record_call e s) = SnapshotLocks s"
  "MetadataStore (record_call e s) = MetadataStore s"
  by (simp_all add: record_call_def)

text \<open>The definitions that unfold one call of a collaborator.\<close>

lemmas call_defs = invoke_def
  call_newVolumeOptions_def call_checkVolExists_def call_reserveVol_def
  call_newVolumeOptionsFromVolID_def call_newSnapshotOptionsFromID_def call_checkSnapExists_def
  call_getcloneInfo_def call_getSubVolumeInfo_def call_reserveSnap_def call_getSnapshotInfo_def
  call_MetadataStore_Get_def Let_def

subsection \<open>What creating the backing volume calls\<close>

lemma createCloneFromSubvolume_frame:
  "createCloneFromSubvolume env volID cloneID volOpt s = (r, s') \<Longrightarrow> only_calls backing_call s s'"
  unfolding createCloneFromSubvolume_def createCloneFromSubvolume_deferred_def only_calls_def
  by (auto simp: call_defs split: option.splits if_splits prod.splits)

lemma createBackingVolume_cloned_frame:
  "createBackingVolume_cloned env volOptions vID s = (r, s') \<Longrightarrow>
     only_calls backing_call s s' \<and> (\<forall>m. r \<noteq> Some (Status Aborted m))"
  unfolding createBackingVolume_cloned_def only_calls_def
  by (auto simp: call_defs split: option.splits if_splits prod.splits)

lemma createBackingVolume_body_frame:
  "createBackingVolume_body env req volOptions vID s = (r, s') \<Longrightarrow>
     only_calls backing_call s s' \<and> (\<forall>m. r \<noteq> Some (Status Aborted m))"
  unfolding createBackingVolume_body_def
  by (auto simp: call_defs only_calls_def
      split: option.splits if_splits prod.splits lookup.splits sum.splits
        VolumeContentSource.splits
      dest!: createCloneFromSubvolume_frame createBackingVolume_cloned_frame)

lemma createBackingVolume_frame:
  "createBackingVolume env req volOptions vID secret s = (r, s') \<Longrightarrow>
     only_calls backing_call s s' \<and> (\<forall>m. r \<noteq> Some (Status Aborted m))"
  unfolding createBackingVolume_def
  by (auto simp: call_defs only_calls_def split: option.splits if_splits prod.splits
      dest!: createBackingVolume_body_frame)


lemma backing_call_not_unreserve: "backing_call e \<Longrightarrow> \<not> is_unreserve e"
  by (cases e rule: is_unreserve.cases) auto

lemma backing_call_facts:
  "list_all backing_call xs \<Longrightarrow>
     (\<forall>a b c. Call_reserveVol a b c \<notin> set xs)
     \<and> (\<forall>a b c d. Call_checkVolExists a b c d \<notin> set xs)
     \<and> list_all (\<lambda>e. \<not> is_unreserve e) xs"
  by (induction xs) (auto dest: backing_call_not_unreserve)

lemma CreateVolume_reserved_spec:
  "CreateVolume_reserved env req volOptions vID s = (r, s') \<Longrightarrow>
     VolumeLocks s' = VolumeLocks s
     \<and> (\<exists>xs. calls s' = calls s @ xs
        \<and> (\<forall>a b c. Call_reserveVol a b c \<notin> set xs)
        \<and> (\<forall>a b c d. Call_checkVolExists a b c d \<notin> set xs)
        \<and> r \<noteq> Panicked
        \<and> (r = Fail (Status Aborted (ErrorText ErrCloneInProgress)) \<longrightarrow>
             list_all (\<lambda>e. \<not> is_unreserve e) xs)
        \<and> (\<forall>e. r = Fail e \<longrightarrow> e \<noteq> Status Aborted (ErrorText ErrCloneInProgress) \<longrightarrow>
              xs \<noteq> [] \<and> (\<exists>ue. last xs = Did (undoVolReservation volOptions vID (cv_Secrets req)) ue)))"
  unfolding CreateVolume_reserved_def
  by (auto simp: call_defs only_calls_def split: option.splits if_splits prod.splits
      dest!: createBackingVolume_frame backing_call_facts)

text \<open>The definitions that evaluate a run on concrete collaborators.\<close>

lemmas eval_defs = call_defs TryAcquire_def Release_def insert_Diff_if record_call_def klog_def klog_if_def
  performed_def

lemmas sample_defs = sample_env_def sample_volOptions_def sample_vID_def sample_sID_def
  sample_volID_def sample_snapID_def idle_def sample_CreateVolumeRequest_def

subsection \<open>ValidateVolumeCapabilities\<close>

lemma rangeFindsBlock_iff: "rangeFindsBlock cs \<longleftrightarrow> (\<exists>c \<in> set cs. GetBlock c \<noteq> None)"
  by (induction cs) auto

text \<open>
  Claim C9. A request that includes a block-mode capability is answered with a response
  that confirms nothing; a request with no block-mode capability is answered with a
  response that confirms exactly the requested capabilities. Neither case is an error.
\<close>

theorem ValidateVolumeCapabilities_block:
  "((\<exists>c \<in> set (VolumeCapabilities req). GetBlock c \<noteq> None) \<longrightarrow>
      (\<exists>resp. ValidateVolumeCapabilities req = Ok resp \<and> Confirmed resp = None))
   \<and> ((\<forall>c \<in> set (VolumeCapabilities req). GetBlock c = None) \<longrightarrow>
      (\<exists>resp. ValidateVolumeCapabilities req = Ok resp
         \<and> Confirmed resp = Some (VolumeCapabilities req)))"
  by (auto simp: ValidateVolumeCapabilities_def rangeFindsBlock_iff)

theorem ValidateVolumeCapabilities_block_witness:
  "(\<exists>resp. ValidateVolumeCapabilities
        \<lparr>vvc_VolumeId = ''v'', VolumeCapabilities =
           [\<lparr>AccessType = Some (VolumeCapability_Mount \<lparr>FsType = ''ext4'', MountFlags = []\<rparr>), AccessMode = 1\<rparr>,
            \<lparr>AccessType = Some VolumeCapability_Block, AccessMode = 1\<rparr>]\<rparr> = Ok resp
        \<and> Confirmed resp = None)
   \<and> (\<exists>resp. ValidateVolumeCapabilities
        \<lparr>vvc_VolumeId = ''v'', VolumeCapabilities =
           [\<lparr>AccessType = Some (VolumeCapability_Mount \<lparr>FsType = ''ext4'', MountFlags = []\<rparr>), AccessMode = 5\<rparr>]\<rparr> = Ok resp
        \<and> Confirmed resp = Some
           [\<lparr>AccessType = Some (VolumeCapability_Mount \<lparr>FsType = ''ext4'', MountFlags = []\<rparr>), AccessMode = 5\<rparr>])"
  using ValidateVolumeCapabilities_block
    [of "\<lparr>vvc_VolumeId = ''v'', VolumeCapabilities =
           [\<lparr>AccessType = Some (VolumeCapability_Mount \<lparr>FsType = ''ext4'', MountFlags = []\<rparr>), AccessMode = 1\<rparr>,
            \<lparr>AccessType = Some VolumeCapability_Block, AccessMode = 1\<rparr>]\<rparr>"]
    ValidateVolumeCapabilities_block
    [of "\<lparr>vvc_VolumeId = ''v'', VolumeCapabilities =
           [\<lparr>AccessType = Some (VolumeCapability_Mount \<lparr>FsType = ''ext4'', MountFlags = []\<rparr>), AccessMode = 5\<rparr>]\<rparr>"]
  by (simp add: GetBlock_def)

subsection \<open>CreateVolume\<close>


lemma pending_run:
  "fst (CreateVolume pending_env clone_CreateVolumeRequest idle) =
     Fail (Status Aborted (ErrorText ErrCloneInProgress))"
  by (simp add: CreateVolume_def CreateVolume_locked_def CreateVolume_reserved_def
      createBackingVolume_def createBackingVolume_body_def createBackingVolume_cloned_def
      eval_defs pending_env_def clone_CreateVolumeRequest_def sample_defs)

lemma full_run:
  "CreateVolume full_env sample_CreateVolumeRequest idle =
     (Fail (Status Internal (ErrorText (OtherError ''no space left''))),
      idle\<lparr>calls :=
        [Call_newVolumeOptions ''pvc-1'' sample_CreateVolumeRequest [] (Inr sample_volOptions),
         Call_checkVolExists sample_volOptions sample_CreateVolumeRequest [] (Inr None),
         Call_reserveVol sample_volOptions [] (Inr sample_vID),
         Did (NewAdminCredentials []) None,
         Did (createVolume sample_volOptions (FsSubvolName sample_vID) 1073741824)
           (Some (OtherError ''no space left'')),
         DeleteCredentials,
         Did (undoVolReservation sample_volOptions sample_vID []) None],
        logs := [(Errorf, ''failed to create volume %s: %v'')]\<rparr>)"
  by (simp add: CreateVolume_def CreateVolume_locked_def CreateVolume_reserved_def
      createBackingVolume_def createBackingVolume_body_def
      eval_defs full_env_def sample_defs)



text \<open>
  The deferred function of \<open>CreateVolume\<close> (lines 206-217) undoes the reservation
  unless \<open>err\<close> is \<open>ErrCloneInProgress\<close>. A run that fails with status \<open>Aborted\<close>
  built from \<open>ErrCloneInProgress\<close> made no call that undoes a reservation. A run that
  reserved the request name successfully and then failed with any other error made, as
  its last call before returning, the call that undoes exactly that reservation.
\<close>

lemma CreateVolume_unreserve_policy:
  assumes "CreateVolume env req s = (r, s')"
  shows "(r = Fail (Status Aborted (ErrorText ErrCloneInProgress)) \<longrightarrow>
            (\<forall>e \<in> set (performed s s'). \<not> is_unreserve e))
    \<and> (\<forall>volOptions secret vID e.
          Call_reserveVol volOptions secret (Inr vID) \<in> set (performed s s')
          \<and> r = Fail e \<and> e \<noteq> Status Aborted (ErrorText ErrCloneInProgress) \<longrightarrow>
          (\<exists>ue. last (performed s s') = Did (undoVolReservation volOptions vID secret) ue))"
  using assms
  unfolding CreateVolume_def CreateVolume_locked_def performed_def
  by (auto simp: call_defs TryAcquire_def list_all_iff
      split: option.splits if_splits prod.splits sum.splits
      dest!: CreateVolume_reserved_spec)

lemma CreateVolume_unreserve_policy_sample:
  "fst (CreateVolume pending_env clone_CreateVolumeRequest idle) =
     Fail (Status Aborted (ErrorText ErrCloneInProgress))
   \<and> list_all (\<lambda>e. \<not> is_unreserve e)
        (performed idle (snd (CreateVolume pending_env clone_CreateVolumeRequest idle)))
   \<and> (\<exists>ue. last (performed idle (snd (CreateVolume full_env sample_CreateVolumeRequest idle))) =
          Did (undoVolReservation sample_volOptions sample_vID []) ue)"
proof -
  have reserved: "Call_reserveVol sample_volOptions [] (Inr sample_vID)
      \<in> set (performed idle (snd (CreateVolume full_env sample_CreateVolumeRequest idle)))"
    unfolding full_run by (simp add: performed_def idle_def)
  have failed: "fst (CreateVolume full_env sample_CreateVolumeRequest idle) =
      Fail (Status Internal (ErrorText (OtherError ''no space left'')))"
    unfolding full_run by simp
  from CreateVolume_unreserve_policy [OF prod.collapse [symmetric], of pending_env clone_CreateVolumeRequest idle]
    CreateVolume_unreserve_policy [OF prod.collapse [symmetric], of full_env sample_CreateVolumeRequest idle]
    reserved failed pending_run
  show ?thesis by (simp add: list_all_iff)
qed

text \<open>
  Claim C4, at a failing input. \<open>CreateVolume\<close> for a clone from a volume, where the
  request name is reserved, the clone is made and \<open>getcloneInfo\<close> then fails. The
  failure is terminal: the rollback of \<open>createCloneFromSubvolume\<close> unprotects and
  deletes the temporary snapshot and purges the clone, so no clone is in progress. Yet
  the run answers with status \<open>Aborted\<close> built from \<open>ErrCloneInProgress\<close> and returns
  without a call that undoes the reservation (\<open>undoVolReservation\<close>): after
  \<open>getcloneInfo\<close>, \<open>createCloneFromSubvolume\<close> tests \<open>err\<close> where the error is in
  \<open>cloneErr\<close>, goes on to report the clone as in progress, and the deferred function of
  \<open>CreateVolume\<close> keeps the reservation for that error.
\<close>

theorem CreateVolume_keeps_reservation_after_rollback:
  "CreateVolume clone_info_fails_env volume_clone_CreateVolumeRequest idle =
     (Fail (Status Aborted (ErrorText ErrCloneInProgress)),
      idle\<lparr>calls :=
        [Call_newVolumeOptions ''pvc-1'' volume_clone_CreateVolumeRequest [] (Inr sample_volOptions),
         Call_checkVolExists sample_volOptions volume_clone_CreateVolumeRequest [] (Inr None),
         Call_reserveVol sample_volOptions [] (Inr sample_vID),
         Did (NewAdminCredentials []) None,
         Call_newVolumeOptionsFromVolID parent_volID [] (Found (sample_volOptions, parent_vID)),
         Did (createSnapshot sample_volOptions (FsSubvolName sample_vID) (FsSubvolName parent_vID))
           None,
         Did (protectSnapshot sample_volOptions (FsSubvolName sample_vID) (FsSubvolName parent_vID))
           None,
         Did (cloneSnapshot sample_volOptions (FsSubvolName parent_vID) (FsSubvolName sample_vID)
                (FsSubvolName sample_vID)
                (volumeOptions_zero\<lparr>SubvolumeGroup := ''csi'', Pool := ''cephfs_data''\<rparr>))
           None,
         Call_getcloneInfo sample_volOptions (FsSubvolName sample_vID)
           (\<lparr>State = ''''\<rparr>, Some (OtherError ''clone status unavailable'')),
         Did (unprotectSnapshot sample_volOptions (FsSubvolName sample_vID)
                (FsSubvolName parent_vID)) None,
         Did (deleteSnapshot sample_volOptions (FsSubvolName sample_vID)
                (FsSubvolName parent_vID)) None,
         Did (purgeVolume (FsSubvolName sample_vID) sample_volOptions) None,
         DeleteCredentials]\<rparr>)"
  by (simp add: CreateVolume_def CreateVolume_locked_def CreateVolume_reserved_def
      createBackingVolume_def createBackingVolume_body_def
      createCloneFromSubvolume_def createCloneFromSubvolume_deferred_def
      eval_defs clone_info_fails_env_def volume_clone_CreateVolumeRequest_def
      parent_vID_def parent_volID_def volumeOptions_zero_def sample_defs)

text \<open>
  The same failure of \<open>getcloneInfo\<close> for a clone from a snapshot
  (\<open>createBackingVolume\<close>, lines 107-110) is answered with status \<open>Internal\<close>: the
  clone is purged and the reservation is undone before the handler returns.
\<close>

lemma snapshot_clone_info_fails_run:
  "CreateVolume clone_info_fails_env clone_CreateVolumeRequest idle =
     (Fail (Status Internal (ErrorText (OtherError ''clone status unavailable''))),
      idle\<lparr>calls :=
        [Call_newVolumeOptions ''pvc-1'' clone_CreateVolumeRequest [] (Inr sample_volOptions),
         Call_checkVolExists sample_volOptions clone_CreateVolumeRequest [] (Inr None),
         Call_reserveVol sample_volOptions [] (Inr sample_vID),
         Did (NewAdminCredentials []) None,
         Call_newSnapshotOptionsFromID sample_snapID
           (Found (sample_volOptions\<lparr>RequestName := ''snap-1''\<rparr>, sample_sID)),
         Call_checkSnapExists (sample_volOptions\<lparr>RequestName := ''snap-1''\<rparr>)
           (FsSubVolumeName sample_sID) [] (Inr None),
         Did (cloneSnapshot sample_volOptions (FsSubVolumeName sample_sID)
                (FsSnapshotName sample_sID) (FsSubvolName sample_vID) sample_volOptions) None,
         Did (resizeVolume sample_volOptions (FsSubvolName sample_vID) 1073741824) None,
         Call_getcloneInfo sample_volOptions (FsSubvolName sample_vID)
           (\<lparr>State = ''''\<rparr>, Some (OtherError ''clone status unavailable'')),
         Did (purgeVolume (FsSubvolName sample_vID) sample_volOptions) None,
         DeleteCredentials,
         Did (undoVolReservation sample_volOptions sample_vID []) None]\<rparr>)"
  by (simp add: CreateVolume_def CreateVolume_locked_def CreateVolume_reserved_def
      createBackingVolume_def createBackingVolume_body_def createBackingVolume_cloned_def
      eval_defs clone_info_fails_env_def clone_CreateVolumeRequest_def sample_defs)

text \<open>
  Claim C6, as amended. A \<open>CreateVolume\<close> request that passes the request validation
  and arrives while the lock of its request name is held fails at once with status
  \<open>Aborted\<close> (operation already exists): the handler only logs a line, it calls no
  collaborator (no lookup, no reservation, no backing object) and leaves the lock
  registry as it was. The function returns a value on every input, so the caller is
  never queued or blocked.
\<close>

theorem CreateVolume_lock_contention:
  assumes "validate env (validateCreateVolumeRequest req) = None"
    and "cv_Name req \<in> VolumeLocks s"
  shows "CreateVolume env req s =
           (Fail (Status Aborted (VolumeOperationAlreadyExistsFmt (cv_Name req))),
            klog Errorf ''util.VolumeOperationAlreadyExistsFmt'' s)"
  using assms by (simp add: CreateVolume_def TryAcquire_def)

theorem CreateVolume_lock_contention_witness:
  "CreateVolume sample_env sample_CreateVolumeRequest busy =
     (Fail (Status Aborted (VolumeOperationAlreadyExistsFmt ''pvc-1'')),
      klog Errorf ''util.VolumeOperationAlreadyExistsFmt'' busy)"
  using CreateVolume_lock_contention [of sample_env sample_CreateVolumeRequest busy]
  by (simp add: sample_defs busy_def)

text \<open>
  The claim as stated, for every request, fails: the validation comes before the lock,
  and a request that the driver rejects is answered with the validation error although
  the lock of its name is held.
\<close>

theorem CreateVolume_lock_contention_counterexample:
  "''pvc-1'' \<in> VolumeLocks busy
   \<and> cv_Name sample_CreateVolumeRequest = ''pvc-1''
   \<and> fst (CreateVolume rejecting_env sample_CreateVolumeRequest busy) =
       Fail (Status InvalidArgument (Text ''volume Capabilities cannot be empty''))
   \<and> fst (CreateVolume rejecting_env sample_CreateVolumeRequest busy) \<noteq>
       Fail (Status Aborted (VolumeOperationAlreadyExistsFmt ''pvc-1''))"
  by (simp add: CreateVolume_def rejecting_env_def sample_defs busy_def)

subsection \<open>ControllerExpandVolume\<close>

lemma expand_run:
  "ControllerExpandVolume rounding_env sample_ExpandRequest idle =
     (Ok \<lparr>ev_CapacityBytes = 2147483648, NodeExpansionRequired = False\<rparr>,
      idle\<lparr>calls :=
        [Did (NewAdminCredentials []) None,
         Call_newVolumeOptionsFromVolID sample_volID [] (Found (sample_volOptions, sample_vID)),
         Did (resizeVolume sample_volOptions (FsSubvolName sample_vID) 2147483648) None,
         DeleteCredentials]\<rparr>)"
  by (simp add: ControllerExpandVolume_def ControllerExpandVolume_resize_def
      eval_defs rounding_env_def sample_ExpandRequest_def GetRequiredBytes_def sample_defs)

text \<open>
  Claim C8. When \<open>ControllerExpandVolume\<close> succeeds, the capacity in the response is
  \<open>RoundOffBytes\<close> of the required bytes of the request, and the run resized the
  subvolume that the lookup of the volume id returned to exactly that size, with
  success.
\<close>

theorem ControllerExpandVolume_rounded:
  assumes "ControllerExpandVolume env req s = (Ok resp, s')"
  shows "ev_CapacityBytes resp = RoundOffBytes env (GetRequiredBytes (ev_CapacityRange req))
    \<and> (\<exists>volOptions volIdentifier.
          Call_newVolumeOptionsFromVolID (ev_VolumeId req) (ev_Secrets req)
            (Found (volOptions, volIdentifier)) \<in> set (performed s s')
        \<and> Did (resizeVolume volOptions (FsSubvolName volIdentifier)
                 (RoundOffBytes env (GetRequiredBytes (ev_CapacityRange req)))) None
            \<in> set (performed s s'))"
  using assms
  unfolding ControllerExpandVolume_def ControllerExpandVolume_resize_def performed_def
  by (auto simp: call_defs TryAcquire_def split: option.splits if_splits lookup.splits prod.splits)

theorem ControllerExpandVolume_rounded_witness:
  "fst (ControllerExpandVolume rounding_env sample_ExpandRequest idle) =
     Ok \<lparr>ev_CapacityBytes = 2147483648, NodeExpansionRequired = False\<rparr>
   \<and> RoundOffBytes rounding_env (GetRequiredBytes (ev_CapacityRange sample_ExpandRequest)) = 2147483648
   \<and> Did (resizeVolume sample_volOptions (FsSubvolName sample_vID) 2147483648) None
       \<in> set (performed idle (snd (ControllerExpandVolume rounding_env sample_ExpandRequest idle)))"
  using ControllerExpandVolume_rounded [OF expand_run]
  unfolding expand_run
  by (simp add: performed_def idle_def)

subsection \<open>CreateSnapshot\<close>

lemma doSnapshot_frame:
  "doSnapshot env volOpt subvolumeName snapshotName secret s = ((snap, err), s') \<Longrightarrow>
     SnapshotLocks s' = SnapshotLocks s \<and> VolumeLocks s' = VolumeLocks s
     \<and> (\<exists>xs. calls s' = calls s @ xs
          \<and> (\<forall>a b c d. Call_checkSnapExists a b c d \<notin> set xs)
          \<and> (\<forall>a b c. Call_getSubVolumeInfo a b c \<notin> set xs)
          \<and> (\<forall>a b c. Call_newVolumeOptionsFromVolID a b c \<notin> set xs)
          \<and> (\<forall>v sn sv. Did (protectSnapshot v sn sv) None \<in> set xs \<longrightarrow>
                err = None \<and> v = volOpt \<and> sn = snapshotName \<and> sv = subvolumeName))"
  unfolding doSnapshot_def doSnapshot_created_def
  by (auto simp: call_defs split: option.splits if_splits prod.splits sum.splits)

lemma CreateSnapshot_reserved_spec:
  "CreateSnapshot_reserved env req parentVolOptions vid info sID s = (r, s') \<Longrightarrow>
     SnapshotLocks s' = SnapshotLocks s \<and> VolumeLocks s' = VolumeLocks s
     \<and> (\<exists>xs. calls s' = calls s @ xs
          \<and> (\<forall>a b c d. Call_checkSnapExists a b c d \<notin> set xs)
          \<and> (\<forall>a b c. Call_getSubVolumeInfo a b c \<notin> set xs)
          \<and> (\<forall>a b c. Call_newVolumeOptionsFromVolID a b c \<notin> set xs)
          \<and> (\<forall>v sn sv. Did (protectSnapshot v sn sv) None \<in> set xs \<longrightarrow>
                (\<exists>resp. r = Ok resp) \<and> v = parentVolOptions \<and> sv = FsSubvolName vid)
          \<and> (\<forall>resp. r = Ok resp \<longrightarrow>
                SizeBytes (csr_Snapshot resp) = BytesQuota info
                \<and> ReadyToUse (csr_Snapshot resp)))"
  unfolding CreateSnapshot_reserved_def
  by (auto simp: call_defs split: option.splits if_splits prod.splits
      dest!: doSnapshot_frame)

lemma CreateSnapshot_fresh_spec:
  "CreateSnapshot_fresh env req parentVolOptions vid s = (r, s') \<Longrightarrow>
     SnapshotLocks s' = SnapshotLocks s \<and> VolumeLocks s' = VolumeLocks s
     \<and> (\<exists>xs. calls s' = calls s @ xs
          \<and> (\<forall>a b c d. Call_checkSnapExists a b c d \<notin> set xs)
          \<and> (\<forall>a b c. Call_newVolumeOptionsFromVolID a b c \<notin> set xs)
          \<and> (\<forall>v sn sv. Did (protectSnapshot v sn sv) None \<in> set xs \<longrightarrow>
                (\<exists>resp. r = Ok resp) \<and> v = parentVolOptions \<and> sv = FsSubvolName vid)
          \<and> (\<forall>resp. r = Ok resp \<longrightarrow>
                ReadyToUse (csr_Snapshot resp)
                \<and> (\<exists>info. Call_getSubVolumeInfo parentVolOptions (FsSubvolName vid) (Inr info) \<in> set xs
                      \<and> SizeBytes (csr_Snapshot resp) = BytesQuota info)))"
  unfolding CreateSnapshot_fresh_def
  by (auto simp: call_defs split: option.splits if_splits prod.splits sum.splits
      dest!: CreateSnapshot_reserved_spec)







subsection \<open>DeleteVolume and DeleteSnapshot when the lookup fails\<close>

lemma DeleteVolume_unreserve_frame:
  "DeleteVolume_unreserve env volOptions vID secrets s = (r, s') \<Longrightarrow>
     VolumeLocks s' = VolumeLocks s \<and> SnapshotLocks s' = SnapshotLocks s
     \<and> (\<exists>xs. calls s' = calls s @ xs \<and> (\<forall>a b c. Call_newVolumeOptionsFromVolID a b c \<notin> set xs))"
  unfolding DeleteVolume_unreserve_def
  by (auto simp: call_defs split: option.splits)

lemma DeleteVolume_purge_frame:
  "DeleteVolume_purge env volOptions vID secrets s = (r, s') \<Longrightarrow>
     VolumeLocks s' = VolumeLocks s \<and> SnapshotLocks s' = SnapshotLocks s
     \<and> (\<exists>xs. calls s' = calls s @ xs \<and> (\<forall>a b c. Call_newVolumeOptionsFromVolID a b c \<notin> set xs))"
  unfolding DeleteVolume_purge_def
  by (auto simp: call_defs split: option.splits if_splits prod.splits
      dest!: DeleteVolume_unreserve_frame)

lemma deleteVolumeDeprecated_purge_frame:
  "deleteVolumeDeprecated_purge env volID ce s = (r, s') \<Longrightarrow>
     VolumeLocks s' = VolumeLocks s \<and> SnapshotLocks s' = SnapshotLocks s
     \<and> (\<exists>xs. calls s' = calls s @ xs \<and> (\<forall>a b c. Call_newVolumeOptionsFromVolID a b c \<notin> set xs))"
  unfolding deleteVolumeDeprecated_purge_def
  by (auto simp: call_defs TryAcquire_def Release_def split: option.splits if_splits prod.splits)

lemma deleteVolumeDeprecated_frame:
  "deleteVolumeDeprecated env req s = (r, s') \<Longrightarrow>
     VolumeLocks s' = VolumeLocks s \<and> SnapshotLocks s' = SnapshotLocks s
     \<and> (\<exists>xs. calls s' = calls s @ xs \<and> (\<forall>a b c. Call_newVolumeOptionsFromVolID a b c \<notin> set xs))"
  unfolding deleteVolumeDeprecated_def
  by (auto simp: call_defs split: option.splits if_splits prod.splits sum.splits
      dest!: deleteVolumeDeprecated_purge_frame)

lemma DeleteVolume_lookup_failure:
  assumes "DeleteVolume env req s = (r, s')"
    and "Call_newVolumeOptionsFromVolID volID secrets (Failed e found) \<in> set (performed s s')"
  shows "(e = ErrPoolNotFound \<or> e = ErrKeyNotFound \<longrightarrow>
            r = Ok DeleteVolumeResponse \<and> list_all (\<lambda>c. \<not> is_mutation c) (performed s s'))
    \<and> (e = ErrVolumeNotFound \<longrightarrow>
         (\<forall>volOptions vID. found = Some (volOptions, vID) \<longrightarrow>
            (if RequestName volOptions \<in> insert (dv_VolumeId req) (VolumeLocks s)
             then r = Fail (Status Aborted (VolumeOperationAlreadyExistsFmt (RequestName volOptions)))
                  \<and> list_all (\<lambda>c. \<not> is_mutation c) (performed s s')
             else (\<exists>ue. performed s s' =
                      [Call_newVolumeOptionsFromVolID (dv_VolumeId req) (dv_Secrets req) (Failed e found),
                       Did (undoVolReservation volOptions vID (dv_Secrets req)) ue]
                    \<and> r = (case ue of None \<Rightarrow> Ok DeleteVolumeResponse
                                     | Some x \<Rightarrow> Fail (Status Internal (ErrorText x)))))))
    \<and> (e \<noteq> ErrPoolNotFound \<and> e \<noteq> ErrKeyNotFound \<and> e \<noteq> ErrVolumeNotFound
         \<and> \<not> (e = ErrInvalidVolID \<and> MetadataStore s) \<longrightarrow>
         r = Fail (Status Internal (ErrorText e)) \<and> list_all (\<lambda>c. \<not> is_mutation c) (performed s s'))"
  using assms
  unfolding DeleteVolume_def DeleteVolume_locked_def performed_def
  by (auto simp: call_defs TryAcquire_def
      split: option.splits if_splits prod.splits lookup.splits
      dest!: deleteVolumeDeprecated_frame DeleteVolume_purge_frame)

lemma DeleteSnapshot_found_frame:
  "DeleteSnapshot_found env req volOpt sid s = (r, s') \<Longrightarrow>
     VolumeLocks s' = VolumeLocks s \<and> SnapshotLocks s' = SnapshotLocks s
     \<and> (\<exists>xs. calls s' = calls s @ xs \<and> (\<forall>a b. Call_newSnapshotOptionsFromID a b \<notin> set xs))"
  unfolding DeleteSnapshot_found_def
  by (auto simp: call_defs split: option.splits if_splits prod.splits)

lemma DeleteSnapshot_lookup_failure:
  assumes "DeleteSnapshot env req s = (r, s')"
    and "Call_newSnapshotOptionsFromID snapshotID (Failed e found) \<in> set (performed s s')"
  shows "(e = ErrPoolNotFound \<or> e = ErrKeyNotFound \<longrightarrow>
            r = Ok DeleteSnapshotResponse \<and> list_all (\<lambda>c. \<not> is_mutation c) (performed s s'))
    \<and> (e = ErrSnapNotFound \<longrightarrow>
         (\<forall>volOpt sid. found = Some (volOpt, sid) \<longrightarrow>
            (\<exists>ue. performed s s' =
                     [Did (NewAdminCredentials (ds_Secrets req)) None,
                      Call_newSnapshotOptionsFromID (ds_SnapshotId req) (Failed e found),
                      Did (undoSnapReservation volOpt sid (ds_Secrets req)) ue,
                      DeleteCredentials]
                   \<and> r = (case ue of None \<Rightarrow> Ok DeleteSnapshotResponse
                                    | Some x \<Rightarrow> Fail (Status Internal (ErrorText x))))))
    \<and> (e \<noteq> ErrPoolNotFound \<and> e \<noteq> ErrKeyNotFound \<and> e \<noteq> ErrSnapNotFound \<longrightarrow>
         r = Fail (Status Internal (ErrorText e)) \<and> list_all (\<lambda>c. \<not> is_mutation c) (performed s s'))"
  using assms
  unfolding DeleteSnapshot_def DeleteSnapshot_locked_def performed_def
  by (auto simp: call_defs TryAcquire_def
      split: option.splits if_splits prod.splits lookup.splits
      dest!: DeleteSnapshot_found_frame)

text \<open>
  Claim C1, as amended. Take a run of \<open>DeleteVolume\<close> or \<open>DeleteSnapshot\<close> in which
  the lookup of the identifier failed.
  \<^item> On \<open>ErrPoolNotFound\<close> or \<open>ErrKeyNotFound\<close> the run answers with success and made no
    call that changes a backing object or the journal.
  \<^item> On \<open>ErrVolumeNotFound\<close>, with the options and the identifier handed back by the
    lookup, \<open>DeleteVolume\<close> answers \<open>Aborted\<close> without touching anything when the lock of
    the request name is held; otherwise the only call after the lookup undoes the
    reservation, and the answer is success when that call succeeds and an internal
    failure when it fails. On \<open>ErrSnapNotFound\<close>, \<open>DeleteSnapshot\<close> likewise undoes the
    reservation and answers with success or, when that fails, with an internal failure.
  \<^item> On any other error the run answers with an internal failure and made no call that
    changes a backing object or the journal; the one exception, about which nothing is
    stated, is \<open>ErrInvalidVolID\<close> in \<open>DeleteVolume\<close> on a controller with a legacy
    metadata store, which is handed to \<open>deleteVolumeDeprecated\<close>.
\<close>

theorem Delete_lookup_failure:
  "(DeleteVolume env req s = (r, s')
      \<and> Call_newVolumeOptionsFromVolID volID secrets (Failed e found) \<in> set (performed s s') \<longrightarrow>
      (e = ErrPoolNotFound \<or> e = ErrKeyNotFound \<longrightarrow>
         r = Ok DeleteVolumeResponse \<and> list_all (\<lambda>c. \<not> is_mutation c) (performed s s'))
      \<and> (e = ErrVolumeNotFound \<longrightarrow>
           (\<forall>volOptions vID. found = Some (volOptions, vID) \<longrightarrow>
              (if RequestName volOptions \<in> insert (dv_VolumeId req) (VolumeLocks s)
               then r = Fail (Status Aborted (VolumeOperationAlreadyExistsFmt (RequestName volOptions)))
                    \<and> list_all (\<lambda>c. \<not> is_mutation c) (performed s s')
               else (\<exists>ue. performed s s' =
                        [Call_newVolumeOptionsFromVolID (dv_VolumeId req) (dv_Secrets req) (Failed e found),
                         Did (undoVolReservation volOptions vID (dv_Secrets req)) ue]
                      \<and> r = (case ue of None \<Rightarrow> Ok DeleteVolumeResponse
                                       | Some x \<Rightarrow> Fail (Status Internal (ErrorText x)))))))
      \<and> (e \<noteq> ErrPoolNotFound \<and> e \<noteq> ErrKeyNotFound \<and> e \<noteq> ErrVolumeNotFound
           \<and> \<not> (e = ErrInvalidVolID \<and> MetadataStore s) \<longrightarrow>
           r = Fail (Status Internal (ErrorText e))
           \<and> list_all (\<lambda>c. \<not> is_mutation c) (performed s s')))
   \<and> (DeleteSnapshot env sreq t = (sr, t')
      \<and> Call_newSnapshotOptionsFromID snapshotID (Failed se sfound) \<in> set (performed t t') \<longrightarrow>
      (se = ErrPoolNotFound \<or> se = ErrKeyNotFound \<longrightarrow>
         sr = Ok DeleteSnapshotResponse \<and> list_all (\<lambda>c. \<not> is_mutation c) (performed t t'))
      \<and> (se = ErrSnapNotFound \<longrightarrow>
           (\<forall>volOpt sid. sfound = Some (volOpt, sid) \<longrightarrow>
              (\<exists>ue. performed t t' =
                       [Did (NewAdminCredentials (ds_Secrets sreq)) None,
                        Call_newSnapshotOptionsFromID (ds_SnapshotId sreq) (Failed se sfound),
                        Did (undoSnapReservation volOpt sid (ds_Secrets sreq)) ue,
                        DeleteCredentials]
                     \<and> sr = (case ue of None \<Rightarrow> Ok DeleteSnapshotResponse
                                       | Some x \<Rightarrow> Fail (Status Internal (ErrorText x))))))
      \<and> (se \<noteq> ErrPoolNotFound \<and> se \<noteq> ErrKeyNotFound \<and> se \<noteq> ErrSnapNotFound \<longrightarrow>
           sr = Fail (Status Internal (ErrorText se))
           \<and> list_all (\<lambda>c. \<not> is_mutation c) (performed t t')))"
  using DeleteVolume_lookup_failure [of env req s r s' volID secrets e found]
    DeleteSnapshot_lookup_failure [of env sreq t sr t' snapshotID se sfound]
  by blast

lemma journal_fails_volume_run:
  "DeleteVolume journal_fails_env sample_DeleteVolumeRequest idle =
     (Fail (Status Internal (ErrorText (OtherError ''omap unavailable''))),
      idle\<lparr>calls :=
        [Call_newVolumeOptionsFromVolID sample_volID []
           (Failed ErrVolumeNotFound (Some (sample_volOptions, sample_vID))),
         Did (undoVolReservation sample_volOptions sample_vID [])
           (Some (OtherError ''omap unavailable''))]\<rparr>)"
  by (simp add: DeleteVolume_def DeleteVolume_locked_def eval_defs
      journal_fails_env_def object_gone_env_def sample_DeleteVolumeRequest_def sample_defs)

lemma legacy_run:
  "DeleteVolume legacy_env legacy_DeleteVolumeRequest legacy_idle =
     (Ok DeleteVolumeResponse,
      legacy_idle\<lparr>calls :=
        [Call_newVolumeOptionsFromVolID ''csi-cephfs-pvc-4711'' [] (Failed ErrInvalidVolID None),
         Call_MetadataStore_Get ''csi-cephfs-pvc-4711'' (Inl CacheEntryNotFound)],
        logs := [(Warningf,
          ''cephfs: metadata for volume %s not found, assuming the volume to be already deleted (%v)'')]\<rparr>)"
  by (simp add: DeleteVolume_def DeleteVolume_locked_def deleteVolumeDeprecated_def eval_defs
      legacy_env_def legacy_idle_def legacy_DeleteVolumeRequest_def sample_defs)

lemma DeleteVolume_runs:
  "DeleteVolume pool_gone_env sample_DeleteVolumeRequest idle =
     (Ok DeleteVolumeResponse,
      idle\<lparr>calls := [Call_newVolumeOptionsFromVolID sample_volID [] (Failed ErrPoolNotFound None)],
           logs := [(Warningf, ''failed to get backend volume for %s: %v'')]\<rparr>)"
  "DeleteVolume object_gone_env sample_DeleteVolumeRequest idle =
     (Ok DeleteVolumeResponse,
      idle\<lparr>calls :=
        [Call_newVolumeOptionsFromVolID sample_volID []
           (Failed ErrVolumeNotFound (Some (sample_volOptions, sample_vID))),
         Did (undoVolReservation sample_volOptions sample_vID []) None]\<rparr>)"
  "DeleteVolume unreachable_env sample_DeleteVolumeRequest idle =
     (Fail (Status Internal (ErrorText (OtherError ''timed out''))),
      idle\<lparr>calls :=
        [Call_newVolumeOptionsFromVolID sample_volID [] (Failed (OtherError ''timed out'') None)]\<rparr>)"
  by (simp_all add: DeleteVolume_def DeleteVolume_locked_def eval_defs
      pool_gone_env_def object_gone_env_def unreachable_env_def
      sample_DeleteVolumeRequest_def sample_defs)

lemma contended_run:
  "DeleteVolume object_gone_env sample_DeleteVolumeRequest busy =
     (Fail (Status Aborted (VolumeOperationAlreadyExistsFmt ''pvc-1'')),
      busy\<lparr>calls :=
        [Call_newVolumeOptionsFromVolID sample_volID []
           (Failed ErrVolumeNotFound (Some (sample_volOptions, sample_vID)))]\<rparr>)"
  by (simp add: DeleteVolume_def DeleteVolume_locked_def eval_defs busy_def
      object_gone_env_def sample_DeleteVolumeRequest_def sample_defs)

lemma DeleteSnapshot_runs:
  "DeleteSnapshot key_gone_env sample_DeleteSnapshotRequest idle =
     (Ok DeleteSnapshotResponse,
      idle\<lparr>calls :=
        [Did (NewAdminCredentials []) None,
         Call_newSnapshotOptionsFromID sample_snapID (Failed ErrKeyNotFound None),
         DeleteCredentials]\<rparr>)"
  "DeleteSnapshot journal_fails_env sample_DeleteSnapshotRequest idle =
     (Fail (Status Internal (ErrorText (OtherError ''omap unavailable''))),
      idle\<lparr>calls :=
        [Did (NewAdminCredentials []) None,
         Call_newSnapshotOptionsFromID sample_snapID
           (Failed ErrSnapNotFound (Some (sample_volOptions\<lparr>RequestName := ''snap-1''\<rparr>, sample_sID))),
         Did (undoSnapReservation (sample_volOptions\<lparr>RequestName := ''snap-1''\<rparr>) sample_sID [])
           (Some (OtherError ''omap unavailable'')),
         DeleteCredentials],
        logs := [(Errorf, ''failed to remove reservation for snapname (%s) with backing snap (%s) (%s)'')]\<rparr>)"
  by (simp_all add: DeleteSnapshot_def DeleteSnapshot_locked_def eval_defs
      key_gone_env_def journal_fails_env_def object_gone_env_def
      sample_DeleteSnapshotRequest_def sample_defs)

theorem Delete_lookup_failure_witness:
  "fst (DeleteVolume pool_gone_env sample_DeleteVolumeRequest idle) = Ok DeleteVolumeResponse
   \<and> list_all (\<lambda>c. \<not> is_mutation c)
        (performed idle (snd (DeleteVolume pool_gone_env sample_DeleteVolumeRequest idle)))
   \<and> fst (DeleteVolume object_gone_env sample_DeleteVolumeRequest idle) = Ok DeleteVolumeResponse
   \<and> performed idle (snd (DeleteVolume object_gone_env sample_DeleteVolumeRequest idle)) =
        [Call_newVolumeOptionsFromVolID sample_volID []
           (Failed ErrVolumeNotFound (Some (sample_volOptions, sample_vID))),
         Did (undoVolReservation sample_volOptions sample_vID []) None]
   \<and> fst (DeleteVolume object_gone_env sample_DeleteVolumeRequest busy) =
        Fail (Status Aborted (VolumeOperationAlreadyExistsFmt ''pvc-1''))
   \<and> fst (DeleteVolume unreachable_env sample_DeleteVolumeRequest idle) =
        Fail (Status Internal (ErrorText (OtherError ''timed out'')))
   \<and> fst (DeleteSnapshot key_gone_env sample_DeleteSnapshotRequest idle) = Ok DeleteSnapshotResponse
   \<and> fst (DeleteSnapshot journal_fails_env sample_DeleteSnapshotRequest idle) =
        Fail (Status Internal (ErrorText (OtherError ''omap unavailable'')))"
  using
    Delete_lookup_failure [where env = pool_gone_env and req = sample_DeleteVolumeRequest
      and s = idle and volID = sample_volID and secrets = "[]" and e = ErrPoolNotFound
      and found = None
      and r = "fst (DeleteVolume pool_gone_env sample_DeleteVolumeRequest idle)"
      and s' = "snd (DeleteVolume pool_gone_env sample_DeleteVolumeRequest idle)",
      THEN conjunct1]
    Delete_lookup_failure [where env = object_gone_env and req = sample_DeleteVolumeRequest
      and s = idle and volID = sample_volID and secrets = "[]" and e = ErrVolumeNotFound
      and found = "Some (sample_volOptions, sample_vID)"
      and r = "fst (DeleteVolume object_gone_env sample_DeleteVolumeRequest idle)"
      and s' = "snd (DeleteVolume object_gone_env sample_DeleteVolumeRequest idle)",
      THEN conjunct1]
    Delete_lookup_failure [where env = object_gone_env and req = sample_DeleteVolumeRequest
      and s = busy and volID = sample_volID and secrets = "[]" and e = ErrVolumeNotFound
      and found = "Some (sample_volOptions, sample_vID)"
      and r = "fst (DeleteVolume object_gone_env sample_DeleteVolumeRequest busy)"
      and s' = "snd (DeleteVolume object_gone_env sample_DeleteVolumeRequest busy)",
      THEN conjunct1]
    Delete_lookup_failure [where env = unreachable_env and req = sample_DeleteVolumeRequest
      and s = idle and volID = sample_volID and secrets = "[]" and e = "OtherError ''timed out''"
      and found = None
      and r = "fst (DeleteVolume unreachable_env sample_DeleteVolumeRequest idle)"
      and s' = "snd (DeleteVolume unreachable_env sample_DeleteVolumeRequest idle)",
      THEN conjunct1]
    Delete_lookup_failure [where env = key_gone_env and sreq = sample_DeleteSnapshotRequest
      and t = idle and snapshotID = sample_snapID and se = ErrKeyNotFound
      and sfound = None
      and sr = "fst (DeleteSnapshot key_gone_env sample_DeleteSnapshotRequest idle)"
      and t' = "snd (DeleteSnapshot key_gone_env sample_DeleteSnapshotRequest idle)",
      THEN conjunct2]
    Delete_lookup_failure [where env = journal_fails_env and sreq = sample_DeleteSnapshotRequest
      and t = idle and snapshotID = sample_snapID and se = ErrSnapNotFound
      and sfound = "Some (sample_volOptions\<lparr>RequestName := ''snap-1''\<rparr>, sample_sID)"
      and sr = "fst (DeleteSnapshot journal_fails_env sample_DeleteSnapshotRequest idle)"
      and t' = "snd (DeleteSnapshot journal_fails_env sample_DeleteSnapshotRequest idle)",
      THEN conjunct2]
  unfolding DeleteVolume_runs DeleteSnapshot_runs contended_run
  by (simp add: performed_def idle_def busy_def)

text \<open>
  The claim as stated fails twice: an \<open>ErrInvalidVolID\<close> from the lookup, on a
  controller with a legacy metadata store that does not know the volume, is answered
  with success, not with an internal failure; and when the backing volume is gone and
  undoing the reservation fails, the answer is an internal failure, not success.
\<close>

theorem Delete_lookup_failure_counterexample:
  "Call_newVolumeOptionsFromVolID ''csi-cephfs-pvc-4711'' [] (Failed ErrInvalidVolID None)
     \<in> set (performed legacy_idle (snd (DeleteVolume legacy_env legacy_DeleteVolumeRequest legacy_idle)))
   \<and> fst (DeleteVolume legacy_env legacy_DeleteVolumeRequest legacy_idle) = Ok DeleteVolumeResponse
   \<and> Call_newVolumeOptionsFromVolID sample_volID []
        (Failed ErrVolumeNotFound (Some (sample_volOptions, sample_vID)))
     \<in> set (performed idle (snd (DeleteVolume journal_fails_env sample_DeleteVolumeRequest idle)))
   \<and> fst (DeleteVolume journal_fails_env sample_DeleteVolumeRequest idle) =
       Fail (Status Internal (ErrorText (OtherError ''omap unavailable'')))"
  unfolding legacy_run journal_fails_volume_run
  by (simp add: performed_def legacy_idle_def idle_def)

subsection \<open>Locks held when a handler returns\<close>

text \<open>
  \<open>CreateVolume\<close>, \<open>ControllerExpandVolume\<close>, \<open>CreateSnapshot\<close> and
  \<open>DeleteSnapshot\<close> leave both lock registries as they found them: each key they
  acquire is released when they return.
\<close>

lemma CreateVolume_reserved_locks:
  "CreateVolume_reserved env req volOptions vID s = (r, s') \<Longrightarrow>
     VolumeLocks s' = VolumeLocks s \<and> SnapshotLocks s' = SnapshotLocks s"
  unfolding CreateVolume_reserved_def
  by (auto simp: call_defs only_calls_def split: option.splits if_splits prod.splits
      dest!: createBackingVolume_frame)

lemma CreateVolume_releases:
  "CreateVolume env req s = (r, s') \<Longrightarrow>
     VolumeLocks s' = VolumeLocks s \<and> SnapshotLocks s' = SnapshotLocks s"
  unfolding CreateVolume_def CreateVolume_locked_def
  by (auto simp: call_defs TryAcquire_def Release_def
      split: option.splits if_splits prod.splits sum.splits
      dest!: CreateVolume_reserved_locks)

lemma ControllerExpandVolume_releases:
  "ControllerExpandVolume env req s = (r, s') \<Longrightarrow>
     VolumeLocks s' = VolumeLocks s \<and> SnapshotLocks s' = SnapshotLocks s"
  unfolding ControllerExpandVolume_def ControllerExpandVolume_resize_def
  by (auto simp: call_defs TryAcquire_def Release_def
      split: option.splits if_splits prod.splits lookup.splits)

lemma CreateSnapshot_releases:
  "CreateSnapshot env req s = (r, s') \<Longrightarrow>
     VolumeLocks s' = VolumeLocks s \<and> SnapshotLocks s' = SnapshotLocks s"
  unfolding CreateSnapshot_def CreateSnapshot_locked_def validateSnapshotReq_def
  by (auto simp: call_defs TryAcquire_def Release_def
      split: option.splits if_splits prod.splits sum.splits lookup.splits
      dest!: CreateSnapshot_fresh_spec)

lemma DeleteSnapshot_releases:
  "DeleteSnapshot env req s = (r, s') \<Longrightarrow>
     VolumeLocks s' = VolumeLocks s \<and> SnapshotLocks s' = SnapshotLocks s"
  unfolding DeleteSnapshot_def DeleteSnapshot_locked_def
  by (auto simp: call_defs TryAcquire_def Release_def
      split: option.splits if_splits prod.splits lookup.splits
      dest!: DeleteSnapshot_found_frame)

text \<open>
  \<open>DeleteVolume\<close> does not: whenever the lookup of the volume succeeds and the lock of
  the request name is free, that lock is held after the handler has returned, whatever
  the outcome of the deletion.
\<close>

lemma DeleteVolume_keeps_RequestName:
  assumes "DeleteVolume env req s = (r, s')"
    and "Call_newVolumeOptionsFromVolID volID secrets (Found (volOptions, vID))
           \<in> set (performed s s')"
    and "RequestName volOptions \<notin> insert (dv_VolumeId req) (VolumeLocks s)"
  shows "VolumeLocks s' = insert (RequestName volOptions) (VolumeLocks s)"
    and "SnapshotLocks s' = SnapshotLocks s"
  using assms
  unfolding DeleteVolume_def DeleteVolume_locked_def performed_def
  by (auto simp: call_defs TryAcquire_def Release_def
      split: option.splits if_splits prod.splits lookup.splits
      dest!: deleteVolumeDeprecated_frame DeleteVolume_purge_frame)

text \<open>
  Claim C7, at a failing input. \<open>DeleteVolume\<close> of an existing volume, on a controller
  that holds no lock: the volume is deleted and the answer is success, but the lock of
  the request name \<open>pvc-1\<close>, which the handler acquired, is still held when it
  returns. After acquiring \<open>volOptions.RequestName\<close> the handler defers the release of
  \<open>volID\<close> once more instead.
\<close>

theorem DeleteVolume_leaves_RequestName_locked:
  "VolumeLocks idle = {}
   \<and> fst (DeleteVolume sample_env sample_DeleteVolumeRequest idle) = Ok DeleteVolumeResponse
   \<and> VolumeLocks (snd (DeleteVolume sample_env sample_DeleteVolumeRequest idle)) = {''pvc-1''}"
  by (simp add: DeleteVolume_def DeleteVolume_locked_def DeleteVolume_purge_def
      DeleteVolume_unreserve_def eval_defs sample_DeleteVolumeRequest_def sample_defs)

subsection \<open>Rollback of a clone from a volume\<close>

text \<open>
  When a step after the clone was made fails (resizing the clone, unprotecting or
  deleting the temporary snapshot), the last four calls are the failed step and the
  rollback: unprotect the snapshot, delete it, purge the clone. The error returned is
  the error of the failed step, whatever the three calls of the rollback return.
\<close>

lemma createCloneFromSubvolume_rollback:
  assumes "createCloneFromSubvolume env volID cloneID volOpt s = (Some e, s')"
    and "e \<noteq> ErrCloneInProgress"
    and "Did (cloneSnapshot volOpt volID cloneID cloneID cloneVolOpt) None \<in> set (performed s s')"
  shows "\<exists>a u d p. take 4 (rev (performed s s')) =
           [Did (purgeVolume cloneID volOpt) p,
            Did (deleteSnapshot volOpt cloneID volID) d,
            Did (unprotectSnapshot volOpt cloneID volID) u,
            Did a (Some e)]"
  using assms
  unfolding createCloneFromSubvolume_def createCloneFromSubvolume_deferred_def performed_def
  by (auto simp: call_defs split: option.splits if_splits prod.splits)

text \<open>
  Claim C5, at a failing input. \<open>createCloneFromSubvolume\<close> where the temporary
  snapshot is created and protected and \<open>cloneSnapshot\<close> then fails: the error of
  \<open>cloneSnapshot\<close> is returned, but the rollback consists of \<open>deleteSnapshot\<close> alone. The
  protected snapshot is not unprotected first and the clone is not purged: the result of
  \<open>cloneSnapshot\<close> is stored in \<open>protectErr\<close>, so the deferred function takes the branch
  meant for a failed \<open>protectSnapshot\<close>.
\<close>

theorem createCloneFromSubvolume_clone_failure:
  "createCloneFromSubvolume clone_fails_env ''csi-vol-parent'' ''csi-vol-clone'' sample_volOptions idle =
     (Some (OtherError ''clone failed''),
      idle\<lparr>calls :=
        [Did (createSnapshot sample_volOptions ''csi-vol-clone'' ''csi-vol-parent'') None,
         Did (protectSnapshot sample_volOptions ''csi-vol-clone'' ''csi-vol-parent'') None,
         Did (cloneSnapshot sample_volOptions ''csi-vol-parent'' ''csi-vol-clone'' ''csi-vol-clone''
                (volumeOptions_zero\<lparr>SubvolumeGroup := ''csi'', Pool := ''cephfs_data''\<rparr>))
           (Some (OtherError ''clone failed'')),
         Did (deleteSnapshot sample_volOptions ''csi-vol-clone'' ''csi-vol-parent'') None],
        logs := [(Errorf, ''failed to clone snapshot %s %s to %s %v'')]\<rparr>)"
  by (simp add: createCloneFromSubvolume_def createCloneFromSubvolume_deferred_def eval_defs
      clone_fails_env_def volumeOptions_zero_def sample_defs)

subsection \<open>Identifier codec\<close>

text \<open>Hexadecimal fields.\<close>

lemma hexValue_dash [simp]: "hexValue (CHR ''-'') = None"
  by (simp add: hexValue_def)

lemma hexValue_hexDigit_all: "\<forall>n \<in> set [0..<16]. hexValue (hexDigit n) = Some n"
  by code_simp

lemma hexValue_hexDigit: "n < 16 \<Longrightarrow> hexValue (hexDigit n) = Some n"
  using hexValue_hexDigit_all by simp

lemma length_toHex [simp]: "length (toHex w n) = w"
  by (induction w arbitrary: n) simp_all

lemma toHex_numeral:
  "toHex (numeral k) n = toHex (pred_numeral k) (n div 16) @ [hexDigit (n mod 16)]"
  by (simp only: numeral_eq_Suc [of k] toHex.simps)

lemma fromHex_from_snoc:
  "fromHex_from acc (xs @ [c]) =
     (case fromHex_from acc xs of
        None \<Rightarrow> None
      | Some v \<Rightarrow> (case hexValue c of None \<Rightarrow> None | Some d \<Rightarrow> Some (16 * v + d)))"
  by (induction xs arbitrary: acc) (simp_all split: option.splits)

lemma fromHex_toHex: "fromHex (toHex w n) = Some (n mod 16 ^ w)"
proof (induction w arbitrary: n)
  case 0
  then show ?case by (simp add: fromHex_def)
next
  case (Suc w)
  have "16 * (n div 16 mod 16 ^ w) + n mod 16 = n mod (16 * 16 ^ w)"
    by (metis mod_mult2_eq)
  with Suc show ?case
    by (simp add: fromHex_def fromHex_from_snoc hexValue_hexDigit)
qed

lemma fromHex_from_None:
  "c \<in> set s \<Longrightarrow> hexValue c = None \<Longrightarrow> fromHex_from acc s = None"
  by (induction s arbitrary: acc) (auto split: option.splits)

text \<open>The sample handle of the design document.\<close>

lemma sample_uuid: "Rep_uuid (Abs_uuid ''b0285c97-a0ce-11eb-8c66-0242ac110002'') = ''b0285c97-a0ce-11eb-8c66-0242ac110002''"
  by (simp add: Abs_uuid_inverse)

lemma sample_hex:
  "toHex 4 (unat (1 :: 16 word)) = ''0001''"
  "toHex 4 (length ''rook-ceph'') = ''0009''"
  "toHex 16 (unat (2 :: 64 word)) = ''0000000000000002''"
  by (simp_all add: toHex_numeral hexDigit_def)

lemma sample_encode:
  "encode sample_Identifier = ''0001-0009-rook-ceph-0000000000000002-b0285c97-a0ce-11eb-8c66-0242ac110002''"
  unfolding encode_def sample_Identifier_def
  by (simp only: Identifier.simps sample_uuid sample_hex) simp

text \<open>Where the fields of an encoded handle lie.\<close>

lemma length_Rep_uuid [simp]: "length (Rep_uuid u) = 36"
  using Rep_uuid [of u] by simp

lemma length_encode: "length (encode i) = 64 + length (clusterID i)"
  by (simp add: encode_def)

lemma take_prefix: "length xs = n \<Longrightarrow> take n (xs @ ys) = xs"
  by simp

lemma drop_prefix: "length xs = n \<Longrightarrow> drop n (xs @ ys) = ys"
  by simp

lemma nth_after_prefix: "length xs = n \<Longrightarrow> (xs @ y # ys) ! n = y"
  by (metis nth_append_length)

lemma encode_fields:
  "take 4 (encode i) = toHex 4 (unat (version i))"
  "encode i ! 4 = CHR ''-''"
  "take 4 (drop 5 (encode i)) = toHex 4 (length (clusterID i))"
  "encode i ! 9 = CHR ''-''"
  "take (length (clusterID i)) (drop 10 (encode i)) = clusterID i"
  "encode i ! (10 + length (clusterID i)) = CHR ''-''"
  "take 16 (drop (11 + length (clusterID i)) (encode i)) = toHex 16 (unat (poolID i))"
  "encode i ! (27 + length (clusterID i)) = CHR ''-''"
  "drop (28 + length (clusterID i)) (encode i) = Rep_uuid (objectUUID i)"
proof -
  let ?v = "toHex 4 (unat (version i))" and ?l = "toHex 4 (length (clusterID i))"
  let ?c = "clusterID i" and ?p = "toHex 16 (unat (poolID i))" and ?u = "Rep_uuid (objectUUID i)"
  have e1: "encode i = ?v @ CHR ''-'' # (?l @ ''-'' @ ?c @ ''-'' @ ?p @ ''-'' @ ?u)"
    by (simp add: encode_def)
  have e2: "encode i = (?v @ ''-'') @ ?l @ CHR ''-'' # (?c @ ''-'' @ ?p @ ''-'' @ ?u)"
    by (simp add: encode_def)
  have e3: "encode i = (?v @ ''-'' @ ?l @ ''-'') @ ?c @ CHR ''-'' # (?p @ ''-'' @ ?u)"
    by (simp add: encode_def)
  have e3': "encode i = (?v @ ''-'' @ ?l @ ''-'' @ ?c) @ CHR ''-'' # (?p @ ''-'' @ ?u)"
    by (simp add: encode_def)
  have e4: "encode i = (?v @ ''-'' @ ?l @ ''-'' @ ?c @ ''-'') @ ?p @ CHR ''-'' # ?u"
    by (simp add: encode_def)
  have e4': "encode i = (?v @ ''-'' @ ?l @ ''-'' @ ?c @ ''-'' @ ?p) @ CHR ''-'' # ?u"
    by (simp add: encode_def)
  have e5: "encode i = (?v @ ''-'' @ ?l @ ''-'' @ ?c @ ''-'' @ ?p @ ''-'') @ ?u"
    by (simp add: encode_def)
  show "take 4 (encode i) = ?v"
    by (subst e1) (rule take_prefix, simp)
  show "encode i ! 4 = CHR ''-''"
    by (subst e1) (rule nth_after_prefix, simp)
  have "drop 5 (encode i) = ?l @ CHR ''-'' # (?c @ ''-'' @ ?p @ ''-'' @ ?u)"
    by (subst e2) (rule drop_prefix, simp)
  then show "take 4 (drop 5 (encode i)) = ?l"
    by (simp only: take_prefix [OF length_toHex])
  have "encode i ! 9 = ((?v @ ''-'' @ ?l) @ CHR ''-'' # (?c @ ''-'' @ ?p @ ''-'' @ ?u)) ! 9"
    by (simp add: encode_def)
  also have "\<dots> = CHR ''-''"
    by (rule nth_after_prefix) simp
  finally show "encode i ! 9 = CHR ''-''" .
  have "drop 10 (encode i) = ?c @ CHR ''-'' # (?p @ ''-'' @ ?u)"
    by (subst e3) (rule drop_prefix, simp)
  then show "take (length ?c) (drop 10 (encode i)) = ?c"
    by simp
  show "encode i ! (10 + length ?c) = CHR ''-''"
    by (subst e3') (rule nth_after_prefix, simp)
  have "drop (11 + length ?c) (encode i) = ?p @ CHR ''-'' # ?u"
    by (subst e4) (rule drop_prefix, simp)
  then show "take 16 (drop (11 + length ?c) (encode i)) = ?p"
    by (simp only: take_prefix [OF length_toHex])
  show "encode i ! (27 + length ?c) = CHR ''-''"
    by (subst e4') (rule nth_after_prefix, simp)
  show "drop (28 + length ?c) (encode i) = ?u"
    by (subst e5) (rule drop_prefix, simp)
qed

lemma unat_version_mod: "unat (v :: 16 word) mod 65536 = unat v"
proof -
  have "unat v < 2 ^ LENGTH(16)" by (rule unsigned_less)
  then show ?thesis by simp
qed

lemma unat_poolID_mod: "unat (p :: 64 word) mod 18446744073709551616 = unat p"
proof -
  have "unat p < 2 ^ LENGTH(64)" by (rule unsigned_less)
  then show ?thesis by simp
qed

lemma decode_encode:
  "length (clusterID i) \<le> 36 \<Longrightarrow> version i \<in> supported \<Longrightarrow> decode supported (encode i) = Inr i"
  by (simp add: decode_def length_encode encode_fields fromHex_toHex unat_version_mod
      unat_poolID_mod Rep_uuid_inverse)

lemma decode_oversized:
  "36 < length (clusterID i) \<Longrightarrow> decode supported (encode i) = Inl InvalidVolumeID"
  by (simp add: decode_def length_encode encode_fields fromHex_toHex)

lemma decode_truncated:
  assumes "length (clusterID i) \<le> 36" and "n < length (encode i)"
  shows "decode supported (take n (encode i)) = Inl InvalidVolumeID"
proof (cases "n < 10")
  case True
  then have "length (take n (encode i)) < 10" by simp
  then show ?thesis by (simp only: decode_def if_True)
next
  case False
  then have n: "10 \<le> n" by simp
  have "take 4 (take n (encode i)) = take 4 (encode i)"
    using n by (simp add: min_def)
  moreover have "take 4 (drop 5 (take n (encode i))) = take 4 (drop 5 (encode i))"
    using n by (simp add: drop_take min_def)
  moreover have "take n (encode i) ! 4 = encode i ! 4" "take n (encode i) ! 9 = encode i ! 9"
    using n by simp_all
  moreover have "length (take n (encode i)) = n"
    using assms(2) by simp
  ultimately show ?thesis
    using assms n
    by (simp add: decode_def length_encode encode_fields fromHex_toHex)
qed

lemma fromHex_dash:
  "CHR ''-'' \<in> set s \<Longrightarrow> fromHex s = None"
  by (simp add: fromHex_def fromHex_from_None)

lemma decode_bad_header:
  "fromHex (take 4 s) = None \<or> fromHex (take 4 (drop 5 s)) = None
     \<or> (\<exists>l. fromHex (take 4 (drop 5 s)) = Some l \<and> length s \<noteq> 64 + l)
   \<Longrightarrow> decode supported s = Inl InvalidVolumeID"
  by (auto simp: decode_def split: option.splits)

lemma toHex_no_dash: "CHR ''-'' \<notin> set (toHex w n)"
proof (induction w arbitrary: n)
  case 0
  then show ?case by simp
next
  case (Suc w)
  have "hexValue (hexDigit (n mod 16)) = Some (n mod 16)"
    by (rule hexValue_hexDigit) simp
  then have "hexDigit (n mod 16) \<noteq> CHR ''-''"
    by (metis hexValue_dash option.distinct(1))
  with Suc show ?case by simp
qed

lemma fromHex_Some_no_dash: "fromHex s = Some v \<Longrightarrow> CHR ''-'' \<notin> set s"
  using fromHex_dash by fastforce

lemma header_split:
  assumes "9 \<le> length s"
  shows "take 9 s = take 4 s @ s ! 4 # take 4 (drop 5 s)"
proof -
  have "take (4 + 5) s = take 4 s @ take 5 (drop 4 s)"
    by (rule take_add)
  then have "take 9 s = take 4 s @ take 5 (drop 4 s)"
    by simp
  moreover have "take 5 (drop 4 s) = s ! 4 # take 4 (drop 5 s)"
    using assms by (simp add: take_Suc_conv_app_nth Cons_nth_drop_Suc [symmetric] numeral_eq_Suc)
  ultimately show ?thesis by simp
qed

lemma two_dashes_rejected:
  assumes "10 \<le> length s" and "2 \<le> count_list (take 9 s) (CHR ''-'')"
  shows "decode supported s = Inl InvalidVolumeID"
proof (cases "fromHex (take 4 s) = None \<or> fromHex (take 4 (drop 5 s)) = None")
  case True
  then show ?thesis
    by (intro decode_bad_header) blast
next
  case False
  then obtain v l where "fromHex (take 4 s) = Some v" "fromHex (take 4 (drop 5 s)) = Some l"
    by (simp only: de_Morgan_disj not_None_eq) blast
  then have "count_list (take 4 s) (CHR ''-'') = 0" "count_list (take 4 (drop 5 s)) (CHR ''-'') = 0"
    by (simp_all only: count_notin fromHex_Some_no_dash not_False_eq_True)
  moreover have "take 9 s = take 4 s @ s ! 4 # take 4 (drop 5 s)"
    using assms(1) by (intro header_split) simp
  ultimately have "count_list (take 9 s) (CHR ''-'') \<le> 1"
    by (simp only: count_list_append count_list.simps) simp
  with assms(2) show ?thesis by simp
qed
lemma header_of_encode:
  "take 8 (encode i) = toHex 4 (unat (version i)) @ CHR ''-'' # take 3 (toHex 4 (length (clusterID i)))"
  by (simp add: encode_def)

lemma one_dash_in_header: "count_list (take 8 (encode i)) (CHR ''-'') = 1"
proof -
  have "CHR ''-'' \<notin> set (take 3 (toHex 4 (length (clusterID i))))"
    using toHex_no_dash by (metis in_set_takeD)
  then show ?thesis
    by (simp add: header_of_encode toHex_no_dash)
qed

lemma insert_separator_late:
  "9 \<le> p \<Longrightarrow> 9 \<le> length s \<Longrightarrow> take 9 (insert_separator p s) = take 9 s"
  by (simp add: insert_separator_def min_def)

lemma insert_separator_early:
  assumes "p < 9" and "9 \<le> length s"
  shows "count_list (take 9 (insert_separator p s)) (CHR ''-'') =
           Suc (count_list (take 8 s) (CHR ''-''))"
proof -
  have "take 9 (insert_separator p s) = take p s @ CHR ''-'' # take (8 - p) (drop p s)"
    using assms by (simp add: insert_separator_def min_def Suc_diff_le numeral_eq_Suc)
  moreover have "take (p + (8 - p)) s = take p s @ take (8 - p) (drop p s)"
    by (rule take_add)
  ultimately show ?thesis
    using assms by simp
qed

lemma count_take_mono: "count_list (take 9 s) c \<le> Suc (count_list (take 8 s) c)"
proof (cases "9 \<le> length s")
  case True
  then have "take 9 s = take 8 s @ [s ! 8]"
    by (simp add: take_Suc_conv_app_nth numeral_eq_Suc)
  then show ?thesis by simp
next
  case False
  then show ?thesis by simp
qed

lemma length_insert_separator [simp]: "length (insert_separator p s) = Suc (length s)"
  by (simp add: insert_separator_def)

lemma extra_separators_invariant:
  assumes "length (encode i) \<le> length s"
    and "take 9 s = take 9 (encode i) \<or> 2 \<le> count_list (take 9 s) (CHR ''-'')"
  shows "2 \<le> count_list (take 9 (insert_separator p s)) (CHR ''-'')
         \<or> take 9 (insert_separator p s) = take 9 (encode i)"
proof (cases "p < 9")
  case True
  have len: "9 \<le> length s"
    using assms(1) by (simp add: length_encode)
  from assms(2) have "1 \<le> count_list (take 8 s) (CHR ''-'')"
  proof
    assume "take 9 s = take 9 (encode i)"
    then have "take 8 (take 9 s) = take 8 (take 9 (encode i))" by simp
    then have "take 8 s = take 8 (encode i)" by simp
    then show ?thesis by (simp add: one_dash_in_header)
  next
    assume "2 \<le> count_list (take 9 s) (CHR ''-'')"
    with count_take_mono [of s "CHR ''-''"] show ?thesis by simp
  qed
  then show ?thesis
    using True len by (simp add: insert_separator_early)
next
  case False
  then have "take 9 (insert_separator p s) = take 9 s"
    using assms(1) by (simp add: insert_separator_late length_encode)
  with assms(2) show ?thesis by auto
qed

lemma extra_separators_fold:
  assumes "length (encode i) \<le> length s"
    and "take 9 s = take 9 (encode i) \<or> 2 \<le> count_list (take 9 s) (CHR ''-'')"
  shows "length (encode i) + length ps \<le> length (fold insert_separator ps s)
    \<and> (take 9 (fold insert_separator ps s) = take 9 (encode i)
       \<or> 2 \<le> count_list (take 9 (fold insert_separator ps s)) (CHR ''-''))"
  using assms
proof (induction ps arbitrary: s)
  case Nil
  then show ?case by simp
next
  case (Cons p ps)
  have "length (encode i) \<le> length (insert_separator p s)"
    using Cons.prems(1) by simp
  moreover have "take 9 (insert_separator p s) = take 9 (encode i)
      \<or> 2 \<le> count_list (take 9 (insert_separator p s)) (CHR ''-'')"
    using extra_separators_invariant [OF Cons.prems] by blast
  ultimately have "length (encode i) + length ps \<le> length (fold insert_separator ps (insert_separator p s))
    \<and> (take 9 (fold insert_separator ps (insert_separator p s)) = take 9 (encode i)
       \<or> 2 \<le> count_list (take 9 (fold insert_separator ps (insert_separator p s))) (CHR ''-''))"
    by (rule Cons.IH)
  moreover have "Suc (length (encode i)) + length ps
      \<le> length (fold insert_separator ps (insert_separator p s))"
  proof -
    have "length (fold insert_separator qs t) = length t + length qs" for qs t
      by (induction qs arbitrary: t) simp_all
    then show ?thesis using Cons.prems(1) by simp
  qed
  ultimately show ?case by simp
qed

lemma same_header_longer_rejected:
  assumes "length (clusterID i) \<le> 36"
    and "take 9 s = take 9 (encode i)" and "length (encode i) < length s"
  shows "decode supported s = Inl InvalidVolumeID"
proof -
  have "take 4 (drop 5 (take 9 s)) = take 4 (drop 5 (take 9 (encode i)))"
    using assms(2) by simp
  then have "take 4 (drop 5 s) = take 4 (drop 5 (encode i))"
    by (simp add: drop_take)
  then have "fromHex (take 4 (drop 5 s)) = Some (length (clusterID i))"
    using assms(1) by (simp add: encode_fields fromHex_toHex)
  then show ?thesis
    using assms(3) by (intro decode_bad_header) (simp add: length_encode)
qed

lemma decode_extra_separators:
  assumes "length (clusterID i) \<le> 36" and "ps \<noteq> []"
  shows "decode supported (fold insert_separator ps (encode i)) = Inl InvalidVolumeID"
proof -
  let ?s = "fold insert_separator ps (encode i)"
  have inv: "length (encode i) + length ps \<le> length ?s
    \<and> (take 9 ?s = take 9 (encode i) \<or> 2 \<le> count_list (take 9 ?s) (CHR ''-''))"
    by (rule extra_separators_fold) simp_all
  with assms(2) have longer: "length (encode i) < length ?s"
    by (cases ps) simp_all
  from inv show ?thesis
  proof (elim conjE disjE)
    assume "take 9 ?s = take 9 (encode i)"
    with assms(1) longer show ?thesis
      by (intro same_header_longer_rejected)
  next
    assume "2 \<le> count_list (take 9 ?s) (CHR ''-'')"
    moreover have "10 \<le> length ?s"
      using longer by (simp add: length_encode)
    ultimately show ?thesis
      by (intro two_dashes_rejected)
  qed
qed

text \<open>
  Claim C3. For every identifier whose cluster id is at most 36 bytes long and whose
  version is supported, decoding its encoding gives the identifier back. Decoding fails
  with \<open>InvalidVolumeID\<close> on every truncated handle (a proper prefix of the encoding
  of such an identifier), on every handle with extra separators (one or more \<open>-\<close>
  inserted, one after the other, at any positions of such an encoding), and on the
  encoding of every identifier whose cluster id is longer than 36 bytes.
\<close>

theorem codec_round_trip:
  "(length (clusterID i) \<le> 36 \<and> version i \<in> supported \<longrightarrow>
      decode supported (encode i) = Inr i)
   \<and> (length (clusterID i) \<le> 36 \<and> n < length (encode i) \<longrightarrow>
      decode supported (take n (encode i)) = Inl InvalidVolumeID)
   \<and> (length (clusterID i) \<le> 36 \<and> ps \<noteq> [] \<longrightarrow>
      decode supported (fold insert_separator ps (encode i)) = Inl InvalidVolumeID)
   \<and> (36 < length (clusterID i) \<longrightarrow> decode supported (encode i) = Inl InvalidVolumeID)"
  using decode_encode [of i supported] decode_truncated [of i n supported]
    decode_extra_separators [of i ps supported] decode_oversized [of i supported]
  by blast

theorem codec_round_trip_witness:
  "decode {1} ''0001-0009-rook-ceph-0000000000000002-b0285c97-a0ce-11eb-8c66-0242ac110002'' =
     Inr sample_Identifier
   \<and> decode {1} ''0001-0009-rook-ceph-0000000000000002-b0285c97-a0ce'' = Inl InvalidVolumeID
   \<and> decode {1} ''0001--0009-rook-ceph--0000000000000002-b0285c97-a0ce-11eb-8c66-0242ac110002'' =
     Inl InvalidVolumeID
   \<and> decode {1} (encode oversized_Identifier) = Inl InvalidVolumeID"
proof -
  have valid: "length (clusterID sample_Identifier) \<le> 36" "version sample_Identifier \<in> {1}"
    by (simp_all add: sample_Identifier_def)
  have cut: "(50::nat) < length (encode sample_Identifier)"
    by (simp add: length_encode sample_Identifier_def)
  have ins: "insert_separator 4 (insert_separator 19
        ''0001-0009-rook-ceph-0000000000000002-b0285c97-a0ce-11eb-8c66-0242ac110002'') =
      ''0001--0009-rook-ceph--0000000000000002-b0285c97-a0ce-11eb-8c66-0242ac110002''"
    by (simp add: insert_separator_def)
  have big: "36 < length (clusterID oversized_Identifier)"
    by (simp add: oversized_Identifier_def)
  from codec_round_trip [of sample_Identifier "{1}" 50 "[19, 4]"] valid cut
    codec_round_trip [of oversized_Identifier "{1}" 0 "[]"] big
  show ?thesis
    unfolding sample_encode by (simp add: ins)
qed
end
